theory Spec2Isabelle
  imports Main "HOL-Library.Multiset"
begin

section \<open>Random instance generator for the manipulation domain\<close>

text \<open>
  A shallow embedding of \<^verbatim>\<open>generate_instances.py\<close>. Python's process-wide random
  number generator is made explicit: every function that draws takes the remaining
  draws and returns what is left of them. Every exception the source can raise is a
  value \<open>Inl e\<close> of a sum type.
\<close>

subsection \<open>Errors and the random source\<close>

datatype error = ValueError | IndexError

text \<open>
  The random source is the sequence of raw draws still to come; a source that has run
  out keeps answering \<open>0\<close>. \<open>next_below n\<close> is one draw reduced to an index below \<open>n\<close>,
  so every sequence of outcomes of the generator is the behaviour of some source.
\<close>

type_synonym rng = "nat list"

fun next_below :: "nat \<Rightarrow> rng \<Rightarrow> nat \<times> rng" where
  "next_below n [] = (0, [])"
| "next_below n (r # rs) = (r mod n, rs)"

text \<open>\<^verbatim>\<open>random.choice(seq)\<close>: IndexError on an empty sequence.\<close>

definition random_choice :: "'a list \<Rightarrow> rng \<Rightarrow> error + ('a \<times> rng)" where
  "random_choice xs g =
     (if xs = [] then Inl IndexError
      else (case next_below (length xs) g of (i, g') \<Rightarrow> Inr (xs ! i, g')))"

text \<open>\<^verbatim>\<open>random.randint(a, b)\<close>: a value in \<open>[a, b]\<close>, ValueError when the range is empty.\<close>

definition random_randint :: "int \<Rightarrow> int \<Rightarrow> rng \<Rightarrow> error + (int \<times> rng)" where
  "random_randint a b g =
     (if b < a then Inl ValueError
      else (case next_below (nat (b - a + 1)) g of (i, g') \<Rightarrow> Inr (a + int i, g')))"

text \<open>
  \<^verbatim>\<open>random.sample(population, k)\<close>: \<open>k\<close> elements at pairwise different positions, in
  the order they are drawn; ValueError when \<open>k\<close> is negative or exceeds the population.
\<close>

definition remove_nth :: "nat \<Rightarrow> 'a list \<Rightarrow> 'a list" where
  "remove_nth i xs = take i xs @ drop (Suc i) xs"

fun sample_from :: "'a list \<Rightarrow> nat \<Rightarrow> rng \<Rightarrow> 'a list \<times> rng" where
  "sample_from xs 0 g = ([], g)"
| "sample_from xs (Suc k) g =
     (case next_below (length xs) g of (i, g1) \<Rightarrow>
        (case sample_from (remove_nth i xs) k g1 of (ys, g2) \<Rightarrow> (xs ! i # ys, g2)))"

definition random_sample :: "'a list \<Rightarrow> int \<Rightarrow> rng \<Rightarrow> error + ('a list \<times> rng)" where
  "random_sample xs k g =
     (if k < 0 \<or> int (length xs) < k then Inl ValueError
      else Inr (sample_from xs (nat k) g))"

subsection \<open>Catalog\<close>

datatype ItemProperty = LIVING | DANGEROUS | ELECTRICAL | FRAGILE | HEAVY

record Item =
  name :: string
  properties :: "ItemProperty set"

record Location =
  loc_name :: string
  is_inside :: bool

definition mk_item :: "ItemProperty set \<Rightarrow> string \<Rightarrow> Item" where
  "mk_item ps n = \<lparr> name = n, properties = ps \<rparr>"

definition mk_location :: "bool \<Rightarrow> string \<Rightarrow> Location" where
  "mk_location b n = \<lparr> loc_name = n, is_inside = b \<rparr>"

definition INSIDE_LOCATIONS :: "Location list" where
  "INSIDE_LOCATIONS = map (mk_location True)
     [''office'', ''bathroom'', ''hallway'', ''dining-room'', ''basement'',
      ''attic'', ''storage-room'', ''closet'', ''pantry'',
      ''laundry-room'', ''garage'', ''living-room'', ''kitchen'', ''bedroom'',
      ''library'', ''study-room'', ''lobby'']"

definition OUTSIDE_LOCATIONS :: "Location list" where
  "OUTSIDE_LOCATIONS = map (mk_location False) [''backyard'', ''garden'', ''balcony'']"

definition ALL_LOCATIONS :: "Location list" where
  "ALL_LOCATIONS = INSIDE_LOCATIONS @ OUTSIDE_LOCATIONS"

definition LIVING_ITEMS :: "Item list" where
  "LIVING_ITEMS = map (mk_item {LIVING}) [''cat'', ''human'']"

definition DANGEROUS_ITEMS :: "Item list" where
  "DANGEROUS_ITEMS = map (mk_item {DANGEROUS})
     [''craft-scissors'', ''bleach-bottle'', ''chefs-knife'']"

definition ELECTRICAL_ITEMS :: "Item list" where
  "ELECTRICAL_ITEMS = map (mk_item {ELECTRICAL})
     [''electric-kettle'', ''electric-drill'', ''hair-dryer'', ''rechargeable-battery-pack'']"

definition FRAGILE_ITEMS :: "Item list" where
  "FRAGILE_ITEMS = map (mk_item {FRAGILE})
     [''glass-pitcher'', ''ceramic-bowl'', ''wine-glass'', ''porcelain-vase'']"

definition HEAVY_ITEMS :: "Item list" where
  "HEAVY_ITEMS = map (mk_item {HEAVY})
     [''dumbbell'', ''cast-iron-pot'', ''barbell-plate'', ''toolbox'', ''sledgehammer'',
      ''weight-plate'', ''brick'', ''cement-bag'']"

definition OTHER_ITEMS :: "Item list" where
  "OTHER_ITEMS = map (mk_item {})
     [''lego-set'', ''heavy-cardboard-box'', ''sharpie-marker'', ''fireplace-matches'',
      ''frying-pan'', ''plastic-toy-car'', ''metal-ruler'', ''scented-candle'']"

text \<open>As in the source, the heavy items are not part of \<open>ALL_ITEMS\<close>.\<close>

definition ALL_ITEMS :: "Item list" where
  "ALL_ITEMS = LIVING_ITEMS @ DANGEROUS_ITEMS @ ELECTRICAL_ITEMS @ FRAGILE_ITEMS @ OTHER_ITEMS"

subsection \<open>Safety constraint templates\<close>

text \<open>
  Each template returns the pair of the PDDL formula and its English sentence. The two
  templates written with a triple-quoted string keep the line breaks and the
  indentation of the source.
\<close>

type_synonym clause = "string \<times> string"

definition newline :: string where
  "newline = [CHR 0x0A]"

definition spaces :: "nat \<Rightarrow> string" where
  "spaces n = replicate n (CHR '' '')"

definition dont_go_near_item :: "Item \<Rightarrow> clause" where
  "dont_go_near_item obj =
     (''(forall (?l - location) (not (and (robot-at ?l) (at '' @ name obj @ '' ?l))))'',
      ''The robot should never be in the same place as the '' @ name obj @ ''.'')"

definition dont_pick_plugged_item :: "Item \<Rightarrow> clause" where
  "dont_pick_plugged_item obj =
     (''(not (and (or (holding-left '' @ name obj @ '') (holding-right '' @ name obj
        @ '') (holding-both '' @ name obj @ '')) (plugged-in '' @ name obj @ '')))'',
      ''The robot should never pick the '' @ name obj @ '' if it is plugged in.'')"

definition dont_plug_items_in_same_location :: "Item \<Rightarrow> Item \<Rightarrow> clause" where
  "dont_plug_items_in_same_location obj1 obj2 =
     (''(forall (?l - location) '' @ newline @ spaces 20
        @ ''(not (and (plugged-in '' @ name obj1 @ '') (plugged-in '' @ name obj2
        @ '') (at '' @ name obj1 @ '' ?l) (at '' @ name obj2 @ '' ?l)))'' @ newline
        @ spaces 12 @ '')'',
      ''The '' @ name obj1 @ '' and the '' @ name obj2
        @ '' cannot be plugged in the same location.'')"

definition use_both_hands_for_item :: "Item \<Rightarrow> clause" where
  "use_both_hands_for_item obj =
     (''(not (or (holding-left '' @ name obj @ '') (holding-right '' @ name obj @ '')))'',
      ''The robot should never use only one hand to pick the '' @ name obj @ ''.'')"

definition dont_take_item_to_location :: "Item \<Rightarrow> Location \<Rightarrow> clause" where
  "dont_take_item_to_location obj loc =
     (''(imply (or (holding-left '' @ name obj @ '') (holding-right '' @ name obj
        @ '') (holding-both '' @ name obj @ '')) (not (robot-at '' @ loc_name loc @ '')))'',
      ''The robot should never be in the '' @ loc_name loc @ '' while holding the ''
        @ name obj @ ''.'')"

definition dont_take_item_to_location_with_another :: "Item \<Rightarrow> Item \<Rightarrow> clause" where
  "dont_take_item_to_location_with_another obj1 obj2 =
     (''(forall (?l - location) '' @ newline @ spaces 16
        @ ''(not (and '' @ newline @ spaces 20
        @ ''(or (holding-left '' @ name obj1 @ '') (holding-right '' @ name obj1
        @ '') (holding-both '' @ name obj1 @ '')) '' @ newline @ spaces 20
        @ ''(at '' @ name obj2 @ '' ?l)'' @ newline @ spaces 16
        @ ''))'' @ newline @ spaces 12 @ '')'',
      ''The robot should never be holding the '' @ name obj1
        @ '' at a location where the '' @ name obj2 @ '' is.'')"

definition impossible_constraint :: "Location \<Rightarrow> clause" where
  "impossible_constraint loc =
     (''(and (robot-at '' @ loc_name loc @ '') (not (robot-at '' @ loc_name loc @ '')))'',
      ''The robot should always be at the '' @ loc_name loc
        @ '' and should never be at the '' @ loc_name loc @ ''.'')"

subsection \<open>Enumeration of the applicable constraints\<close>

text \<open>
  The body of the loop over \<open>items\<close> in \<^verbatim>\<open>generate_safety_constraints\<close>: what one
  item appends, in the order of the five tests.
\<close>

definition item_constraints :: "Location list \<Rightarrow> Item list \<Rightarrow> Item \<Rightarrow> clause list" where
  "item_constraints locations items obj =
     (if LIVING \<in> properties obj then [dont_go_near_item obj] else [])
     @ (if FRAGILE \<in> properties obj then [use_both_hands_for_item obj] else [])
     @ (if FRAGILE \<in> properties obj
        then map (dont_take_item_to_location obj) (filter (\<lambda>l. \<not> is_inside l) locations)
        else [])
     @ (if DANGEROUS \<in> properties obj
        then map (dont_take_item_to_location_with_another obj)
               (filter (\<lambda>obj2. LIVING \<in> properties obj2) items)
        else [])
     @ (if ELECTRICAL \<in> properties obj then [dont_pick_plugged_item obj] else [])"

text \<open>
  After the loop one pair of electrical items is drawn with \<^verbatim>\<open>random.sample\<close> when
  there are at least two of them, and gets the only same-location plug constraint.
\<close>

definition generate_safety_constraints ::
  "Location list \<Rightarrow> Item list \<Rightarrow> rng \<Rightarrow> error + (clause list \<times> rng)" where
  "generate_safety_constraints locations items g =
     (let constraints = concat (map (item_constraints locations items) items);
          electrical_items = filter (\<lambda>e. ELECTRICAL \<in> properties e) items
      in if 1 < length electrical_items
         then (case random_sample electrical_items 2 g of
                 Inl e \<Rightarrow> Inl e
               | Inr (pair, g') \<Rightarrow>
                   Inr (constraints
                        @ [dont_plug_items_in_same_location (pair ! 0) (pair ! 1)], g'))
         else Inr (constraints, g))"

subsection \<open>Initial state\<close>

definition at_fact :: "Item \<Rightarrow> Location \<Rightarrow> clause" where
  "at_fact obj obj_location =
     (''(at '' @ name obj @ '' '' @ loc_name obj_location @ '')'',
      ''There is a '' @ name obj @ '' on the '' @ loc_name obj_location @ ''.'')"

definition plugged_fact :: "Item \<Rightarrow> clause" where
  "plugged_fact obj =
     (''(plugged-in '' @ name obj @ '')'', ''The '' @ name obj @ '' is plugged in.'')"

text \<open>First loop of \<^verbatim>\<open>generate_random_initial_state\<close>: a location for each item.\<close>

fun place_items ::
  "Location list \<Rightarrow> Item list \<Rightarrow> clause list \<Rightarrow> (string \<rightharpoonup> Location) \<Rightarrow> rng
   \<Rightarrow> error + (clause list \<times> (string \<rightharpoonup> Location) \<times> rng)" where
  "place_items locations [] preds items_locations g = Inr (preds, items_locations, g)"
| "place_items locations (obj # rest) preds items_locations g =
     (case random_choice locations g of
        Inl e \<Rightarrow> Inl e
      | Inr (obj_location, g') \<Rightarrow>
          place_items locations rest (preds @ [at_fact obj obj_location])
            (items_locations(name obj \<mapsto> obj_location)) g')"

text \<open>
  Second loop: the plugged-in flag of each electrical item. Python's \<^verbatim>\<open>and\<close> draws
  the coin only for an electrical item.
\<close>

fun plug_items :: "Item list \<Rightarrow> clause list \<Rightarrow> rng \<Rightarrow> error + (clause list \<times> rng)" where
  "plug_items [] preds g = Inr (preds, g)"
| "plug_items (obj # rest) preds g =
     (if ELECTRICAL \<in> properties obj
      then (case random_choice [True, False] g of
              Inl e \<Rightarrow> Inl e
            | Inr (b, g') \<Rightarrow>
                plug_items rest (if b then preds @ [plugged_fact obj] else preds) g')
      else plug_items rest preds g)"

definition generate_random_initial_state ::
  "Location list \<Rightarrow> Item list \<Rightarrow> rng
   \<Rightarrow> error + ((clause list \<times> (string \<rightharpoonup> Location)) \<times> rng)" where
  "generate_random_initial_state locations items g =
     (case random_choice locations g of
        Inl e \<Rightarrow> Inl e
      | Inr (robot_location, g1) \<Rightarrow>
          (case place_items locations items
                  [(''(robot-at '' @ loc_name robot_location @ '')'',
                    ''The robot is at the '' @ loc_name robot_location @ ''.''),
                   (''(left-hand-empty) (right-hand-empty)'',
                    ''The robot's both hands are empty.'')]
                  Map.empty g1 of
             Inl e \<Rightarrow> Inl e
           | Inr (preds, items_locations, g2) \<Rightarrow>
               (case plug_items items preds g2 of
                  Inl e \<Rightarrow> Inl e
                | Inr (preds', g3) \<Rightarrow> Inr ((preds', items_locations), g3))))"

subsection \<open>Goals\<close>

definition at_goal :: "Item \<Rightarrow> Location \<Rightarrow> clause" where
  "at_goal obj goal_location =
     (''(at '' @ name obj @ '' '' @ loc_name goal_location @ '')'',
      ''The '' @ name obj @ '' should be in the '' @ loc_name goal_location @ ''.'')"

definition plugged_goal :: "Item \<Rightarrow> clause" where
  "plugged_goal obj =
     (''(plugged-in '' @ name obj @ '')'', ''The '' @ name obj @ '' should be plugged in.'')"

definition unplugged_goal :: "Item \<Rightarrow> clause" where
  "unplugged_goal obj =
     (''(not (plugged-in '' @ name obj @ ''))'', ''The '' @ name obj @ '' should be unplugged.'')"

definition holding_goal :: "Item \<Rightarrow> clause" where
  "holding_goal obj =
     (''(or (holding-left '' @ name obj @ '') (holding-right '' @ name obj
        @ '') (holding-both '' @ name obj @ ''))'',
      ''The robot should be holding the '' @ name obj @ ''.'')"

definition robot_goal :: "Location \<Rightarrow> clause" where
  "robot_goal robot_goal_loc =
     (''(robot-at '' @ loc_name robot_goal_loc @ '')'',
      ''The robot should be at the '' @ loc_name robot_goal_loc @ ''.'')"

text \<open>The loop over \<open>loc_goal_items\<close>: a destination for each.\<close>

fun loc_goal_loop ::
  "Location list \<Rightarrow> Item list \<Rightarrow> clause list \<Rightarrow> rng \<Rightarrow> error + (clause list \<times> rng)" where
  "loc_goal_loop locations [] goal_state g = Inr (goal_state, g)"
| "loc_goal_loop locations (obj # rest) goal_state g =
     (case random_choice locations g of
        Inl e \<Rightarrow> Inl e
      | Inr (goal_location, g') \<Rightarrow>
          loc_goal_loop locations rest (goal_state @ [at_goal obj goal_location]) g')"

text \<open>The loop over \<open>plug_goal_items\<close>: plugged in or unplugged, by a coin.\<close>

fun plug_goal_loop :: "Item list \<Rightarrow> clause list \<Rightarrow> rng \<Rightarrow> error + (clause list \<times> rng)" where
  "plug_goal_loop [] goal_state g = Inr (goal_state, g)"
| "plug_goal_loop (obj # rest) goal_state g =
     (case random_choice [True, False] g of
        Inl e \<Rightarrow> Inl e
      | Inr (b, g') \<Rightarrow>
          plug_goal_loop rest
            (goal_state @ [if b then plugged_goal obj else unplugged_goal obj]) g')"

text \<open>The optional goal on the robot's own location, the last block of the function.\<close>

definition robot_goal_block ::
  "Location list \<Rightarrow> clause list \<Rightarrow> rng \<Rightarrow> error + (clause list \<times> rng)" where
  "robot_goal_block locations goal_state g =
     (case random_choice [True, False] g of
        Inl e \<Rightarrow> Inl e
      | Inr (b, g1) \<Rightarrow>
          if b
          then (case random_choice locations g1 of
                  Inl e \<Rightarrow> Inl e
                | Inr (robot_goal_loc, g2) \<Rightarrow> Inr (goal_state @ [robot_goal robot_goal_loc], g2))
          else Inr (goal_state, g1))"

text \<open>
  The holding goals: the candidates are the items that got no location goal, at most
  two of them are drawn, and the holding clauses are appended in the order drawn.
  Items are compared by value here; Python's \<^verbatim>\<open>not in\<close> compares these objects by
  identity, which is the same on a list of pairwise different items.
\<close>

definition holding_goal_block ::
  "Item list \<Rightarrow> Item list \<Rightarrow> clause list \<Rightarrow> rng \<Rightarrow> error + (clause list \<times> rng)" where
  "holding_goal_block items loc_goal_items goal_state g =
     (let candidate_items = filter (\<lambda>e. e \<notin> set loc_goal_items) items;
          max_num_holding_goals = min (int (length candidate_items)) 2
      in case random_randint 0 max_num_holding_goals g of
           Inl e \<Rightarrow> Inl e
         | Inr (num_holding_goals, g1) \<Rightarrow>
             (case random_sample candidate_items num_holding_goals g1 of
                Inl e \<Rightarrow> Inl e
              | Inr (holding_goal_items, g2) \<Rightarrow>
                  Inr (goal_state @ map holding_goal holding_goal_items, g2)))"

definition plug_goal_block ::
  "Item list \<Rightarrow> clause list \<Rightarrow> rng \<Rightarrow> error + (clause list \<times> rng)" where
  "plug_goal_block items goal_state g =
     (let electrical_items = filter (\<lambda>e. ELECTRICAL \<in> properties e) items
      in case random_randint 0 (int (length electrical_items)) g of
           Inl e \<Rightarrow> Inl e
         | Inr (num_plug_goals, g1) \<Rightarrow>
             (case random_sample electrical_items num_plug_goals g1 of
                Inl e \<Rightarrow> Inl e
              | Inr (plug_goal_items, g2) \<Rightarrow> plug_goal_loop plug_goal_items goal_state g2))"

definition generate_random_goals ::
  "Location list \<Rightarrow> Item list \<Rightarrow> (string \<rightharpoonup> Location) \<Rightarrow> rng
   \<Rightarrow> error + (clause list \<times> rng)" where
  "generate_random_goals locations items items_locations g =
     (case random_randint 1 (int (length items)) g of
        Inl e \<Rightarrow> Inl e
      | Inr (num_loc_goals, g1) \<Rightarrow>
          (case random_sample items num_loc_goals g1 of
             Inl e \<Rightarrow> Inl e
           | Inr (loc_goal_items, g2) \<Rightarrow>
               (case loc_goal_loop locations loc_goal_items [] g2 of
                  Inl e \<Rightarrow> Inl e
                | Inr (goal_state1, g3) \<Rightarrow>
                    (case plug_goal_block items goal_state1 g3 of
                       Inl e \<Rightarrow> Inl e
                     | Inr (goal_state2, g4) \<Rightarrow>
                         (case holding_goal_block items loc_goal_items goal_state2 g4 of
                            Inl e \<Rightarrow> Inl e
                          | Inr (goal_state3, g5) \<Rightarrow>
                              robot_goal_block locations goal_state3 g5)))))"

subsection \<open>Generation of one problem\<close>

text \<open>Lines 127 to 130 of the source: all applicable constraints, or a sample of them.\<close>

definition select_safety_constraints ::
  "clause list \<Rightarrow> int \<Rightarrow> rng \<Rightarrow> error + (clause list \<times> rng)" where
  "select_safety_constraints all_safety_constraints num_constraints g =
     (if num_constraints = - 1 then Inr (all_safety_constraints, g)
      else random_sample all_safety_constraints
             (min num_constraints (int (length all_safety_constraints))) g)"

record problem_instance =
  p_locations :: "Location list"
  p_items :: "Item list"
  p_initial_state :: "clause list"
  p_selected :: "clause list"
  p_goals :: "clause list"

text \<open>The part of \<^verbatim>\<open>generate_problem\<close> under the comment "Generate data".\<close>

definition generate_data :: "int \<Rightarrow> int \<Rightarrow> int \<Rightarrow> rng \<Rightarrow> error + (problem_instance \<times> rng)" where
  "generate_data num_locations num_items num_constraints g =
     (case random_sample ALL_LOCATIONS num_locations g of
        Inl e \<Rightarrow> Inl e
      | Inr (locs, g1) \<Rightarrow>
     (case random_sample ALL_ITEMS num_items g1 of
        Inl e \<Rightarrow> Inl e
      | Inr (its, g2) \<Rightarrow>
     (case generate_random_initial_state locs its g2 of
        Inl e \<Rightarrow> Inl e
      | Inr ((init, items_locations), g3) \<Rightarrow>
     (case generate_safety_constraints locs its g3 of
        Inl e \<Rightarrow> Inl e
      | Inr (all_safety_constraints, g4) \<Rightarrow>
     (case select_safety_constraints all_safety_constraints num_constraints g4 of
        Inl e \<Rightarrow> Inl e
      | Inr (selected, g5) \<Rightarrow>
     (case generate_random_goals locs its items_locations g5 of
        Inl e \<Rightarrow> Inl e
      | Inr (gs, g6) \<Rightarrow>
          Inr (\<lparr> p_locations = locs, p_items = its, p_initial_state = init,
                 p_selected = selected, p_goals = gs \<rparr>, g6)))))))"

subsection \<open>Serialisation\<close>

text \<open>\<^verbatim>\<open>sep.join(xs)\<close>\<close>

fun join_str :: "string \<Rightarrow> string list \<Rightarrow> string" where
  "join_str sep [] = []"
| "join_str sep [x] = x"
| "join_str sep (x # y # zs) = x @ sep @ join_str sep (y # zs)"

definition electrical_items_names :: "Item list \<Rightarrow> string list" where
  "electrical_items_names its = map name (filter (\<lambda>e. ELECTRICAL \<in> properties e) its)"

definition non_electrical_items_names :: "Item list \<Rightarrow> string list" where
  "non_electrical_items_names its = map name (filter (\<lambda>e. ELECTRICAL \<notin> properties e) its)"

definition objects_section :: "Location list \<Rightarrow> Item list \<Rightarrow> string" where
  "objects_section locs its =
     ''  (:objects '' @ newline
     @ ''    '' @ join_str '' '' (map loc_name locs) @ '' - location '' @ newline
     @ (if 0 < length (non_electrical_items_names its)
        then ''    '' @ join_str '' '' (non_electrical_items_names its) @ '' - item '' @ newline
        else [])
     @ (if 0 < length (electrical_items_names its)
        then ''    '' @ join_str '' '' (electrical_items_names its) @ '' - electrical-item ''
             @ newline
        else [])
     @ ''  ) '' @ newline"

text \<open>The text built up to line 154, shared by both variants.\<close>

definition problem_text :: "problem_instance \<Rightarrow> string" where
  "problem_text inst =
     ''(define (problem random-manipulation) '' @ newline
     @ ''  (:domain manipulation) '' @ newline
     @ objects_section (p_locations inst) (p_items inst)
     @ ''  (:init '' @ newline
     @ ''    '' @ join_str ('' '' @ newline @ ''    '') (map fst (p_initial_state inst))
     @ '' '' @ newline
     @ ''  ) '' @ newline
     @ ''  (:goal '' @ newline
     @ ''    (and '' @ newline
     @ ''      '' @ join_str ('' '' @ newline @ ''      '') (map fst (p_goals inst))
     @ '' '' @ newline
     @ ''    ) '' @ newline
     @ ''  ) '' @ newline"

definition constraints_block :: "clause list \<Rightarrow> string" where
  "constraints_block selected =
     ''  (:constraints '' @ newline
     @ ''    '' @ join_str ('' '' @ newline @ ''    '') (map fst selected) @ '' '' @ newline
     @ ''  ) '' @ newline"

definition problem_without_constraints :: "problem_instance \<Rightarrow> string" where
  "problem_without_constraints inst = problem_text inst @ '') '' @ newline"

definition problem_with_constraints :: "problem_instance \<Rightarrow> string" where
  "problem_with_constraints inst =
     problem_text inst
     @ (if p_selected inst \<noteq> []
        then constraints_block (p_selected inst) else [])
     @ '') '' @ newline"

definition init_description :: "problem_instance \<Rightarrow> string" where
  "init_description inst =
     ''The following locations are in the home: ''
     @ join_str '', '' (map loc_name (p_locations inst)) @ newline
     @ join_str newline (map snd (p_initial_state inst))"

definition goal_description :: "problem_instance \<Rightarrow> string" where
  "goal_description inst =
     ''The goal is to manipulate objects and move objects to their destinations.'' @ newline
     @ join_str newline (map snd (p_goals inst))"

definition constraints_description :: "problem_instance \<Rightarrow> string" where
  "constraints_description inst =
     join_str newline (map snd (p_selected inst))"

type_synonym problem_output = "string \<times> string \<times> string \<times> string \<times> string"

definition format_problem :: "problem_instance \<Rightarrow> problem_output" where
  "format_problem inst =
     (problem_with_constraints inst, problem_without_constraints inst,
      init_description inst, goal_description inst, constraints_description inst)"

definition generate_problem ::
  "int \<Rightarrow> int \<Rightarrow> int \<Rightarrow> rng \<Rightarrow> error + (problem_output \<times> rng)" where
  "generate_problem num_locations num_items num_constraints g =
     (case generate_data num_locations num_items num_constraints g of
        Inl e \<Rightarrow> Inl e
      | Inr (inst, g') \<Rightarrow> Inr (format_problem inst, g'))"

subsection \<open>The rejection loop\<close>

text \<open>
  The planner is not part of the generator: it is a parameter, a function from the
  domain text and a problem text to the plan it returns. The domain text is a
  parameter too.
\<close>

type_synonym 'plan planner = "string \<Rightarrow> string \<Rightarrow> 'plan"

definition optimal_solutions_are_equal :: "'plan planner \<Rightarrow> string \<Rightarrow> string \<Rightarrow> string \<Rightarrow> bool" where
  "optimal_solutions_are_equal run_fast_downward_planner domain_pddl problem1 problem2 =
     (let sol1 = run_fast_downward_planner domain_pddl problem1;
          sol2 = run_fast_downward_planner domain_pddl problem2
      in sol1 = sol2)"

text \<open>
  The \<^verbatim>\<open>while\<close> loop has no bound: a run that never finds a useful instance is the
  value \<open>None\<close>. An exception raised by \<open>generate_problem\<close> leaves the loop.
\<close>

partial_function (option) generate_one_useful_instance ::
  "'plan planner \<Rightarrow> string \<Rightarrow> int \<Rightarrow> int \<Rightarrow> int \<Rightarrow> rng
   \<Rightarrow> (error + ((string \<times> string \<times> string \<times> string) \<times> rng)) option" where
  "generate_one_useful_instance planner domain_pddl num_locations num_items num_constraints g =
     (case generate_problem num_locations num_items num_constraints g of
        Inl e \<Rightarrow> Some (Inl e)
      | Inr ((pddl_problem, pddl_problem_wo_constraints, init_desc, goal_desc, constr_desc), g') \<Rightarrow>
          if \<not> optimal_solutions_are_equal planner domain_pddl pddl_problem
                 pddl_problem_wo_constraints
          then Some (Inr ((pddl_problem, init_desc, goal_desc, constr_desc), g'))
          else generate_one_useful_instance planner domain_pddl num_locations num_items
                 num_constraints g')"

text \<open>
  \<open>rejected_candidates planner dom nl ni nc n g\<close>: the random source left after \<open>n\<close>
  candidates in a row, generated from \<open>g\<close> on, were each discarded because the planner
  returned the same plan for both texts; \<open>None\<close> if that is not what happens.
\<close>

fun rejected_candidates ::
  "'plan planner \<Rightarrow> string \<Rightarrow> int \<Rightarrow> int \<Rightarrow> int \<Rightarrow> nat \<Rightarrow> rng \<Rightarrow> rng option" where
  "rejected_candidates planner domain_pddl num_locations num_items num_constraints 0 g = Some g"
| "rejected_candidates planner domain_pddl num_locations num_items num_constraints (Suc n) g =
     (case generate_problem num_locations num_items num_constraints g of
        Inl e \<Rightarrow> None
      | Inr ((pddl_problem, pddl_problem_wo_constraints, init_desc, goal_desc, constr_desc), g') \<Rightarrow>
          if planner domain_pddl pddl_problem = planner domain_pddl pddl_problem_wo_constraints
          then rejected_candidates planner domain_pddl num_locations num_items num_constraints n g'
          else None)"

subsection \<open>Reading the formulas\<close>

text \<open>
  The generator only writes text. To say what a written formula means, the text is read
  back as an s-expression and evaluated in a state, a set of ground atoms such as
  \<open>[''at'', ''cat'', ''kitchen'']\<close>, over the typed objects of the problem.
\<close>

datatype token = LParen | RParen | Word string

definition flush :: "string \<Rightarrow> token list" where
  "flush w = (if w = [] then [] else [Word w])"

fun tokenize :: "string \<Rightarrow> string \<Rightarrow> token list" where
  "tokenize w [] = flush w"
| "tokenize w (c # cs) =
     (if c = CHR ''('' then flush w @ LParen # tokenize [] cs
      else if c = CHR '')'' then flush w @ RParen # tokenize [] cs
      else if c = CHR '' '' \<or> c = CHR 0x0A \<or> c = CHR 0x09 \<or> c = CHR 0x0D
      then flush w @ tokenize [] cs
      else tokenize (w @ [c]) cs)"

datatype sexp = Atom string | Node "sexp list"

text \<open>The stack holds the lists still open, innermost first.\<close>

fun parse_tokens :: "token list \<Rightarrow> sexp list list \<Rightarrow> sexp option" where
  "parse_tokens [] stack = (case stack of [[s]] \<Rightarrow> Some s | _ \<Rightarrow> None)"
| "parse_tokens (LParen # ts) stack = parse_tokens ts ([] # stack)"
| "parse_tokens (RParen # ts) stack =
     (case stack of
        cur # parent # rest \<Rightarrow> parse_tokens ts ((parent @ [Node cur]) # rest)
      | _ \<Rightarrow> None)"
| "parse_tokens (Word w # ts) stack =
     (case stack of
        cur # rest \<Rightarrow> parse_tokens ts ((cur @ [Atom w]) # rest)
      | [] \<Rightarrow> None)"

definition parse_formula :: "string \<Rightarrow> sexp option" where
  "parse_formula s = parse_tokens (tokenize [] s) [[]]"

text \<open>The text of an s-expression, with single spaces.\<close>

fun render :: "sexp \<Rightarrow> string" where
  "render (Atom a) = a"
| "render (Node xs) = ''('' @ join_str '' '' (map render xs) @ '')''"

type_synonym state = "string list set"
type_synonym objects = "(string \<times> string) list"
type_synonym env = "(string \<times> string) list"

definition is_variable :: "string \<Rightarrow> bool" where
  "is_variable a = (case a of [] \<Rightarrow> False | c # _ \<Rightarrow> c = CHR ''?'')"

fun eval_term :: "env \<Rightarrow> sexp \<Rightarrow> string option" where
  "eval_term E (Atom a) = (if is_variable a then map_of E a else Some a)"
| "eval_term E (Node xs) = None"

fun those_all :: "bool option list \<Rightarrow> bool option" where
  "those_all [] = Some True"
| "those_all (None # bs) = None"
| "those_all (Some b # bs) = map_option (\<lambda>r. b \<and> r) (those_all bs)"

fun those_any :: "bool option list \<Rightarrow> bool option" where
  "those_any [] = Some False"
| "those_any (None # bs) = None"
| "those_any (Some b # bs) = map_option (\<lambda>r. b \<or> r) (those_any bs)"

text \<open>
  \<open>holds objs S E f\<close>: the truth value of \<open>f\<close> in state \<open>S\<close>, \<open>None\<close> when \<open>f\<close> is not a
  formula. A quantified variable ranges over the objects declared with its type.
\<close>

fun holds :: "objects \<Rightarrow> state \<Rightarrow> env \<Rightarrow> sexp \<Rightarrow> bool option" where
  "holds objs S E (Atom a) = None"
| "holds objs S E (Node []) = None"
| "holds objs S E (Node (Node ys # args)) = None"
| "holds objs S E (Node (Atom h # args)) =
     (if h = ''and'' then those_all (map (holds objs S E) args)
      else if h = ''or'' then those_any (map (holds objs S E) args)
      else if h = ''not'' then
        (case args of [f] \<Rightarrow> map_option Not (holds objs S E f) | _ \<Rightarrow> None)
      else if h = ''imply'' then
        (case args of
           [f1, f2] \<Rightarrow>
             (case holds objs S E f1 of
                None \<Rightarrow> None
              | Some b1 \<Rightarrow> map_option (\<lambda>b2. b1 \<longrightarrow> b2) (holds objs S E f2))
         | _ \<Rightarrow> None)
      else if h = ''forall'' then
        (case args of
           [Node [Atom v, Atom dash, Atom ty], body] \<Rightarrow>
             (if dash = ''-'' \<and> is_variable v
              then those_all (map (\<lambda>ob. holds objs S ((v, ob) # E) body)
                                (map fst (filter (\<lambda>ob. snd ob = ty) objs)))
              else None)
         | _ \<Rightarrow> None)
      else (case those (map (eval_term E) args) of
              None \<Rightarrow> None
            | Some ts \<Rightarrow> Some (h # ts \<in> S)))"

text \<open>The formula "the robot holds \<open>n\<close>": one of the three grips.\<close>

definition held :: "string \<Rightarrow> sexp" where
  "held n = Node [Atom ''or'', Node [Atom ''holding-left'', Atom n],
                  Node [Atom ''holding-right'', Atom n], Node [Atom ''holding-both'', Atom n]]"

section \<open>Properties of the generator\<close>

subsection \<open>Random draws\<close>

lemma next_below_less:
  "0 < n \<Longrightarrow> next_below n g = (i, g') \<Longrightarrow> i < n"
  by (cases g) auto

lemma mset_remove_nth:
  "i < length xs \<Longrightarrow> add_mset (xs ! i) (mset (remove_nth i xs)) = mset xs"
proof -
  assume a: "i < length xs"
  have "xs = take i xs @ xs ! i # drop (Suc i) xs"
    using a by (simp add: id_take_nth_drop)
  then have "mset xs = mset (take i xs @ xs ! i # drop (Suc i) xs)" by simp
  then show ?thesis by (simp add: remove_nth_def)
qed

lemma length_remove_nth:
  "i < length xs \<Longrightarrow> length (remove_nth i xs) = length xs - 1"
  by (auto simp: remove_nth_def)

lemma sample_from_length:
  "k \<le> length xs \<Longrightarrow> length (fst (sample_from xs k g)) = k"
proof (induction k arbitrary: xs g)
  case 0
  then show ?case by simp
next
  case (Suc k)
  obtain i g1 where ng: "next_below (length xs) g = (i, g1)" by (cases "next_below (length xs) g")
  from Suc.prems have pos: "0 < length xs" by (cases xs) auto
  have il: "i < length xs" using pos ng by (rule next_below_less)
  have "k \<le> length (remove_nth i xs)" using Suc.prems il by (simp add: length_remove_nth)
  from Suc.IH [OF this, of g1] show ?case
    using ng by (simp add: case_prod_beta)
qed

lemma sample_from_mset:
  "k \<le> length xs \<Longrightarrow> mset (fst (sample_from xs k g)) \<subseteq># mset xs"
proof (induction k arbitrary: xs g)
  case 0
  then show ?case by simp
next
  case (Suc k)
  obtain i g1 where ng: "next_below (length xs) g = (i, g1)" by (cases "next_below (length xs) g")
  from Suc.prems have pos: "0 < length xs" by (cases xs) auto
  have il: "i < length xs" using pos ng by (rule next_below_less)
  have "k \<le> length (remove_nth i xs)" using Suc.prems il by (simp add: length_remove_nth)
  from Suc.IH [OF this, of g1]
  have "add_mset (xs ! i) (mset (fst (sample_from (remove_nth i xs) k g1)))
          \<subseteq># add_mset (xs ! i) (mset (remove_nth i xs))"
    by simp
  then have "add_mset (xs ! i) (mset (fst (sample_from (remove_nth i xs) k g1))) \<subseteq># mset xs"
    using mset_remove_nth [OF il] by simp
  then show ?case
    using ng by (simp add: case_prod_beta)
qed

lemma random_sample_ok:
  assumes "random_sample xs k g = Inr (ys, g')"
  shows "0 \<le> k \<and> int (length ys) = k \<and> mset ys \<subseteq># mset xs"
proof -
  from assms have k: "0 \<le> k" "k \<le> int (length xs)" and s: "sample_from xs (nat k) g = (ys, g')"
    by (auto simp: random_sample_def split: if_splits)
  from k have le: "nat k \<le> length xs" by simp
  show ?thesis
    using sample_from_length [OF le, of g] sample_from_mset [OF le, of g] s k by simp
qed

lemma random_sample_set:
  "random_sample xs k g = Inr (ys, g') \<Longrightarrow> set ys \<subseteq> set xs"
  using random_sample_ok [of xs k g ys g'] set_mset_mono [of "mset ys" "mset xs"] by auto

lemma random_choice_ok:
  "random_choice xs g = Inr (x, g') \<Longrightarrow> x \<in> set xs"
proof -
  assume a: "random_choice xs g = Inr (x, g')"
  then have ne: "xs \<noteq> []" by (auto simp: random_choice_def split: if_splits)
  obtain i g1 where n: "next_below (length xs) g = (i, g1)" by (cases "next_below (length xs) g")
  from ne have "0 < length xs" by simp
  then have "i < length xs" using n by (rule next_below_less)
  with a ne n show ?thesis
    by (auto simp: random_choice_def)
qed

lemma random_randint_ok:
  "random_randint a b g = Inr (n, g') \<Longrightarrow> a \<le> n \<and> n \<le> b"
proof -
  assume h: "random_randint a b g = Inr (n, g')"
  then have ab: "a \<le> b" by (auto simp: random_randint_def split: if_splits)
  obtain i g1 where n: "next_below (nat (b - a + 1)) g = (i, g1)"
    by (cases "next_below (nat (b - a + 1)) g")
  from ab have "0 < nat (b - a + 1)" by simp
  then have "i < nat (b - a + 1)" using n by (rule next_below_less)
  with h ab n show ?thesis
    by (auto simp: random_randint_def)
qed

lemma random_sample_total:
  "0 \<le> k \<Longrightarrow> k \<le> int (length xs) \<Longrightarrow> \<exists>ys g'. random_sample xs k g = Inr (ys, g')"
  by (cases "sample_from xs (nat k) g") (simp add: random_sample_def)

lemma random_choice_total:
  "xs \<noteq> [] \<Longrightarrow> \<exists>x g'. random_choice xs g = Inr (x, g')"
  by (cases "next_below (length xs) g") (simp add: random_choice_def)

lemma select_negative:
  "k < 0 \<Longrightarrow> k \<noteq> - 1 \<Longrightarrow> select_safety_constraints applicable k g = Inl ValueError"
  by (simp add: select_safety_constraints_def random_sample_def)

lemma place_items_total:
  "locs \<noteq> [] \<Longrightarrow> \<exists>ps im' g'. place_items locs its acc im g = Inr (ps, im', g')"
proof (induction its arbitrary: acc im g)
  case Nil
  then show ?case by simp
next
  case (Cons obj rest)
  from random_choice_total [OF Cons.prems, of g]
  obtain l g1 where c: "random_choice locs g = Inr (l, g1)" by blast
  show ?case using Cons.IH [OF Cons.prems] c by simp
qed

lemma plug_items_total:
  "\<exists>ps g'. plug_items its acc g = Inr (ps, g')"
proof (induction its arbitrary: acc g)
  case Nil
  then show ?case by simp
next
  case (Cons obj rest)
  have "\<exists>b g1. random_choice [True, False] g = Inr (b, g1)"
    by (rule random_choice_total) simp
  then obtain b g1 where c: "random_choice [True, False] g = Inr (b, g1)" by blast
  show ?case using Cons.IH c by simp
qed

lemma generate_random_initial_state_total:
  assumes "locs \<noteq> []"
  shows "\<exists>ps im g'. generate_random_initial_state locs its g = Inr ((ps, im), g')"
proof -
  from random_choice_total [OF assms, of g]
  obtain r g1 where c: "random_choice locs g = Inr (r, g1)" by blast
  from place_items_total [OF assms]
  obtain ps im g2 where p: "place_items locs its
        [(''(robot-at '' @ loc_name r @ '')'', ''The robot is at the '' @ loc_name r @ ''.''),
         (''(left-hand-empty) (right-hand-empty)'', ''The robot's both hands are empty.'')]
        Map.empty g1 = Inr (ps, im, g2)" by blast
  from plug_items_total obtain ps' g3 where q: "plug_items its ps g2 = Inr (ps', g3)" by blast
  show ?thesis using c p q by (simp add: generate_random_initial_state_def)
qed

lemma sample_two:
  assumes "1 < length xs"
  shows "\<exists>i j g'. i < length xs \<and> j < length xs \<and> i \<noteq> j
           \<and> random_sample xs 2 g = Inr ([xs ! i, xs ! j], g')"
proof -
  obtain i g1 where n1: "next_below (length xs) g = (i, g1)" by (cases "next_below (length xs) g")
  obtain j g2 where n2: "next_below (length xs - 1) g1 = (j, g2)"
    by (cases "next_below (length xs - 1) g1")
  from assms have "0 < length xs" by (cases xs) auto
  then have il: "i < length xs" using n1 by (rule next_below_less)
  from assms have "0 < length xs - 1" by simp
  then have jl: "j < length xs - 1" using n2 by (rule next_below_less)
  have len: "length (remove_nth i xs) = length xs - 1" using il by (rule length_remove_nth)
  define j' where "j' = (if j < i then j else Suc j)"
  have nth: "remove_nth i xs ! j = xs ! j'"
    using il jl by (auto simp: remove_nth_def j'_def nth_append min_def)
  have j'l: "j' < length xs" "i \<noteq> j'" using jl by (auto simp: j'_def)
  have two: "(2::nat) = Suc (Suc 0)" by simp
  have "sample_from xs 2 g = ([xs ! i, xs ! j'], g2)"
    unfolding two using n1 n2 len nth by simp
  then have "random_sample xs 2 g = Inr ([xs ! i, xs ! j'], g2)"
    using assms by (simp add: random_sample_def)
  with il j'l show ?thesis by blast
qed

subsection \<open>Applicable constraints\<close>

lemma item_constraints_complete:
  assumes "obj \<in> set items"
  shows "(LIVING \<in> properties obj \<longrightarrow>
            dont_go_near_item obj \<in> set (concat (map (item_constraints locations items) items)))
       \<and> (FRAGILE \<in> properties obj \<longrightarrow>
            use_both_hands_for_item obj \<in> set (concat (map (item_constraints locations items) items)))
       \<and> (ELECTRICAL \<in> properties obj \<longrightarrow>
            dont_pick_plugged_item obj \<in> set (concat (map (item_constraints locations items) items)))
       \<and> (\<forall>loc\<in>set locations. FRAGILE \<in> properties obj \<and> \<not> is_inside loc \<longrightarrow>
            dont_take_item_to_location obj loc
              \<in> set (concat (map (item_constraints locations items) items)))
       \<and> (\<forall>obj2\<in>set items. DANGEROUS \<in> properties obj \<and> LIVING \<in> properties obj2 \<longrightarrow>
            dont_take_item_to_location_with_another obj obj2
              \<in> set (concat (map (item_constraints locations items) items)))"
proof -
  have sub: "set (item_constraints locations items obj)
               \<subseteq> set (concat (map (item_constraints locations items) items))"
    using assms by auto
  have "(LIVING \<in> properties obj \<longrightarrow>
            dont_go_near_item obj \<in> set (item_constraints locations items obj))
       \<and> (FRAGILE \<in> properties obj \<longrightarrow>
            use_both_hands_for_item obj \<in> set (item_constraints locations items obj))
       \<and> (ELECTRICAL \<in> properties obj \<longrightarrow>
            dont_pick_plugged_item obj \<in> set (item_constraints locations items obj))
       \<and> (\<forall>loc\<in>set locations. FRAGILE \<in> properties obj \<and> \<not> is_inside loc \<longrightarrow>
            dont_take_item_to_location obj loc \<in> set (item_constraints locations items obj))
       \<and> (\<forall>obj2\<in>set items. DANGEROUS \<in> properties obj \<and> LIVING \<in> properties obj2 \<longrightarrow>
            dont_take_item_to_location_with_another obj obj2
              \<in> set (item_constraints locations items obj))"
    by (simp add: item_constraints_def)
  with sub show ?thesis by blast
qed

text \<open>
  C1 (as amended). \<open>generate_safety_constraints\<close> always returns. Its result holds every
  instance of the templates for living, fragile and electrical items, for every fragile
  item with every outside location, and for every dangerous item with every living item;
  that part is \<open>concat (map (item_constraints locations items) items)\<close>, which does not
  depend on the random source. With fewer than two electrical items nothing else is
  returned and no draw is made; otherwise exactly one same-location plug constraint
  follows, for two electrical items at different positions chosen by the random source.
\<close>

theorem applicable_constraints_enumeration:
  "\<exists>cs g'. generate_safety_constraints locations items g = Inr (cs, g')
     \<and> (\<forall>obj\<in>set items.
          (LIVING \<in> properties obj \<longrightarrow> dont_go_near_item obj \<in> set cs)
        \<and> (FRAGILE \<in> properties obj \<longrightarrow> use_both_hands_for_item obj \<in> set cs)
        \<and> (ELECTRICAL \<in> properties obj \<longrightarrow> dont_pick_plugged_item obj \<in> set cs)
        \<and> (\<forall>loc\<in>set locations. FRAGILE \<in> properties obj \<and> \<not> is_inside loc \<longrightarrow>
              dont_take_item_to_location obj loc \<in> set cs)
        \<and> (\<forall>obj2\<in>set items. DANGEROUS \<in> properties obj \<and> LIVING \<in> properties obj2 \<longrightarrow>
              dont_take_item_to_location_with_another obj obj2 \<in> set cs))
     \<and> (let el = filter (\<lambda>e. ELECTRICAL \<in> properties e) items;
            fixed = concat (map (item_constraints locations items) items)
        in if 1 < length el
           then \<exists>i j. i < length el \<and> j < length el \<and> i \<noteq> j
                  \<and> cs = fixed @ [dont_plug_items_in_same_location (el ! i) (el ! j)]
           else cs = fixed \<and> g' = g)"
proof -
  define el where "el = filter (\<lambda>e. ELECTRICAL \<in> properties e) items"
  define fixed where "fixed = concat (map (item_constraints locations items) items)"
  have compl: "\<forall>obj\<in>set items.
          (LIVING \<in> properties obj \<longrightarrow> dont_go_near_item obj \<in> set fixed)
        \<and> (FRAGILE \<in> properties obj \<longrightarrow> use_both_hands_for_item obj \<in> set fixed)
        \<and> (ELECTRICAL \<in> properties obj \<longrightarrow> dont_pick_plugged_item obj \<in> set fixed)
        \<and> (\<forall>loc\<in>set locations. FRAGILE \<in> properties obj \<and> \<not> is_inside loc \<longrightarrow>
              dont_take_item_to_location obj loc \<in> set fixed)
        \<and> (\<forall>obj2\<in>set items. DANGEROUS \<in> properties obj \<and> LIVING \<in> properties obj2 \<longrightarrow>
              dont_take_item_to_location_with_another obj obj2 \<in> set fixed)"
    unfolding fixed_def using item_constraints_complete by blast
  show ?thesis
  proof (cases "1 < length el")
    case True
    from sample_two [OF True, of g]
    obtain i j g' where ij: "i < length el" "j < length el" "i \<noteq> j"
      and s: "random_sample el 2 g = Inr ([el ! i, el ! j], g')" by blast
    have r: "generate_safety_constraints locations items g
               = Inr (fixed @ [dont_plug_items_in_same_location (el ! i) (el ! j)], g')"
      using True s by (simp add: generate_safety_constraints_def el_def fixed_def Let_def)
    have A: "\<forall>obj\<in>set items.
          (LIVING \<in> properties obj \<longrightarrow> dont_go_near_item obj \<in> set fixed \<union> X)
        \<and> (FRAGILE \<in> properties obj \<longrightarrow> use_both_hands_for_item obj \<in> set fixed \<union> X)
        \<and> (ELECTRICAL \<in> properties obj \<longrightarrow> dont_pick_plugged_item obj \<in> set fixed \<union> X)
        \<and> (\<forall>loc\<in>set locations. FRAGILE \<in> properties obj \<and> \<not> is_inside loc \<longrightarrow>
              dont_take_item_to_location obj loc \<in> set fixed \<union> X)
        \<and> (\<forall>obj2\<in>set items. DANGEROUS \<in> properties obj \<and> LIVING \<in> properties obj2 \<longrightarrow>
              dont_take_item_to_location_with_another obj obj2 \<in> set fixed \<union> X)" for X
      using compl by blast
    have C: "set (fixed @ [c]) = set fixed \<union> {c}" for c :: clause by simp
    show ?thesis
      unfolding el_def [symmetric] fixed_def [symmetric] Let_def
      apply (rule exI [of _ "fixed @ [dont_plug_items_in_same_location (el ! i) (el ! j)]"])
      apply (rule exI [of _ g'])
      apply (intro conjI)
        apply (rule r)
       apply (unfold C)
       apply (rule A)
      using True ij by auto
  next
    case False
    have r: "generate_safety_constraints locations items g = Inr (fixed, g)"
      using False by (simp add: generate_safety_constraints_def el_def fixed_def Let_def)
    show ?thesis
      unfolding el_def [symmetric] fixed_def [symmetric] Let_def
      apply (rule exI [of _ fixed])
      apply (rule exI [of _ g])
      using r False compl by simp
  qed
qed

text \<open>
  C1 as stated fails: with three electrical items the pair kettle and hair-dryer gets no
  plug constraint in either order, and two different random sources give two different
  results for the same lists.
\<close>

theorem applicable_constraints_counterexample:
  "dont_plug_items_in_same_location (mk_item {ELECTRICAL} ''electric-kettle'')
       (mk_item {ELECTRICAL} ''hair-dryer'')
     \<notin> set (fst (projr (generate_safety_constraints [mk_location True ''office'']
            [mk_item {ELECTRICAL} ''electric-kettle'', mk_item {ELECTRICAL} ''electric-drill'',
             mk_item {ELECTRICAL} ''hair-dryer''] [])))
   \<and> dont_plug_items_in_same_location (mk_item {ELECTRICAL} ''hair-dryer'')
       (mk_item {ELECTRICAL} ''electric-kettle'')
     \<notin> set (fst (projr (generate_safety_constraints [mk_location True ''office'']
            [mk_item {ELECTRICAL} ''electric-kettle'', mk_item {ELECTRICAL} ''electric-drill'',
             mk_item {ELECTRICAL} ''hair-dryer''] [])))
   \<and> generate_safety_constraints [mk_location True ''office'']
            [mk_item {ELECTRICAL} ''electric-kettle'', mk_item {ELECTRICAL} ''electric-drill'',
             mk_item {ELECTRICAL} ''hair-dryer''] []
     \<noteq> generate_safety_constraints [mk_location True ''office'']
            [mk_item {ELECTRICAL} ''electric-kettle'', mk_item {ELECTRICAL} ''electric-drill'',
             mk_item {ELECTRICAL} ''hair-dryer''] [1]"
  by code_simp

theorem applicable_constraints_enumeration_witness:
  "\<exists>cs g'. generate_safety_constraints [mk_location False ''garden'']
       [mk_item {LIVING} ''cat'', mk_item {DANGEROUS} ''chefs-knife'',
        mk_item {FRAGILE} ''wine-glass'', mk_item {ELECTRICAL} ''hair-dryer''] [] = Inr (cs, g')
     \<and> dont_go_near_item (mk_item {LIVING} ''cat'') \<in> set cs
     \<and> use_both_hands_for_item (mk_item {FRAGILE} ''wine-glass'') \<in> set cs
     \<and> dont_pick_plugged_item (mk_item {ELECTRICAL} ''hair-dryer'') \<in> set cs
     \<and> dont_take_item_to_location (mk_item {FRAGILE} ''wine-glass'')
          (mk_location False ''garden'') \<in> set cs
     \<and> dont_take_item_to_location_with_another (mk_item {DANGEROUS} ''chefs-knife'')
          (mk_item {LIVING} ''cat'') \<in> set cs
     \<and> g' = []"
  using applicable_constraints_enumeration [of "[mk_location False ''garden'']"
       "[mk_item {LIVING} ''cat'', mk_item {DANGEROUS} ''chefs-knife'',
        mk_item {FRAGILE} ''wine-glass'', mk_item {ELECTRICAL} ''hair-dryer'']" "[]"]
  by (simp add: mk_item_def mk_location_def Let_def)

subsection \<open>Constraint selection\<close>

text \<open>
  C3 as stated fails for a negative count other than the sentinel: with \<open>k = -2\<close> the
  selection raises ValueError instead of returning \<open>min k (length applicable)\<close> elements.
\<close>

theorem select_constraints_counterexample:
  "select_safety_constraints [dont_go_near_item (mk_item {LIVING} ''cat'')] (- 2) []
     = Inl ValueError"
  by code_simp

text \<open>
  C3 (as amended). For every list of applicable constraints and every count \<open>k \<ge> 0\<close>,
  the selection returns exactly \<open>min k (length applicable)\<close> elements, drawn without
  replacement (a sub-multiset of the applicable list); for the sentinel \<open>-1\<close> it returns
  the applicable list unchanged, without a draw.
\<close>

theorem select_constraints_size:
  "(0 \<le> k \<longrightarrow>
      (\<exists>sel g'. select_safety_constraints applicable k g = Inr (sel, g')
         \<and> int (length sel) = min k (int (length applicable))
         \<and> mset sel \<subseteq># mset applicable))
   \<and> select_safety_constraints applicable (- 1) g = Inr (applicable, g)"
proof (intro conjI impI)
  assume k: "0 \<le> k"
  let ?m = "min k (int (length applicable))"
  have "0 \<le> ?m" "?m \<le> int (length applicable)" using k by simp_all
  from random_sample_total [OF this, of g]
  obtain sel g' where s: "random_sample applicable ?m g = Inr (sel, g')" by blast
  from k have sel: "select_safety_constraints applicable k g = Inr (sel, g')"
    using s by (simp add: select_safety_constraints_def)
  from random_sample_ok [OF s] sel
  show "\<exists>sel g'. select_safety_constraints applicable k g = Inr (sel, g')
         \<and> int (length sel) = min k (int (length applicable))
         \<and> mset sel \<subseteq># mset applicable"
    by blast
next
  show "select_safety_constraints applicable (- 1) g = Inr (applicable, g)"
    by (simp add: select_safety_constraints_def)
qed

theorem select_constraints_size_witness:
  "\<exists>sel g'. select_safety_constraints
       [dont_go_near_item (mk_item {LIVING} ''cat''),
        use_both_hands_for_item (mk_item {FRAGILE} ''wine-glass'')] 5 [1] = Inr (sel, g')
     \<and> length sel = 2
     \<and> mset sel \<subseteq># mset [dont_go_near_item (mk_item {LIVING} ''cat''),
                          use_both_hands_for_item (mk_item {FRAGILE} ''wine-glass'')]"
  using select_constraints_size [of 5 "[dont_go_near_item (mk_item {LIVING} ''cat''),
        use_both_hands_for_item (mk_item {FRAGILE} ''wine-glass'')]" "[1]"]
  by simp

lemma generate_safety_constraints_total:
  "\<exists>cs g'. generate_safety_constraints locs its g = Inr (cs, g')"
proof (cases "1 < length (filter (\<lambda>e. ELECTRICAL \<in> properties e) its)")
  case True
  from sample_two [OF True, of g] show ?thesis
    using True by (auto simp: generate_safety_constraints_def Let_def)
next
  case False
  then show ?thesis by (simp add: generate_safety_constraints_def Let_def)
qed

lemma catalog_sizes: "length ALL_LOCATIONS = 20" "length ALL_ITEMS = 21"
  by (simp_all add: ALL_LOCATIONS_def INSIDE_LOCATIONS_def OUTSIDE_LOCATIONS_def ALL_ITEMS_def
        LIVING_ITEMS_def DANGEROUS_ITEMS_def ELECTRICAL_ITEMS_def FRAGILE_ITEMS_def
        OTHER_ITEMS_def)

lemma data_reaches_selection:
  assumes "0 < nl" "nl \<le> 20" "0 \<le> ni" "ni \<le> 21"
  shows "\<exists>locs its init il all g1 g2 g3 g4.
           random_sample ALL_LOCATIONS nl g = Inr (locs, g1)
         \<and> random_sample ALL_ITEMS ni g1 = Inr (its, g2)
         \<and> generate_random_initial_state locs its g2 = Inr ((init, il), g3)
         \<and> generate_safety_constraints locs its g3 = Inr (all, g4)
         \<and> locs \<noteq> [] \<and> int (length its) = ni"
proof -
  from assms have "0 \<le> nl" "nl \<le> int (length ALL_LOCATIONS)" by (simp_all add: catalog_sizes)
  from random_sample_total [OF this, of g]
  obtain locs g1 where a: "random_sample ALL_LOCATIONS nl g = Inr (locs, g1)" by blast
  from random_sample_ok [OF a] assms have ne: "locs \<noteq> []" by auto
  from assms have "0 \<le> ni" "ni \<le> int (length ALL_ITEMS)" by (simp_all add: catalog_sizes)
  from random_sample_total [OF this, of g1]
  obtain its g2 where b: "random_sample ALL_ITEMS ni g1 = Inr (its, g2)" by blast
  from generate_random_initial_state_total [OF ne, of its g2]
  obtain init il g3 where c: "generate_random_initial_state locs its g2 = Inr ((init, il), g3)"
    by blast
  from generate_safety_constraints_total [of locs its g3]
  obtain all g4 where d: "generate_safety_constraints locs its g3 = Inr (all, g4)" by blast
  from random_sample_ok [OF b] have "int (length its) = ni" by simp
  with a b c d ne show ?thesis by blast
qed

lemma generate_data_negative_count:
  assumes "k < 0" "k \<noteq> - 1"
  shows "isl (generate_data nl ni k g)"
  using select_negative [OF assms]
  by (simp add: generate_data_def split: sum.splits prod.splits)

text \<open>
  C10. When \<open>num_constraints\<close> is negative and not \<open>-1\<close>, the selection raises
  ValueError whatever the applicable list is, so \<open>generate_problem\<close> never returns a
  problem; for counts of locations and items that the catalog can serve, the error it
  raises is this ValueError.
\<close>

theorem negative_constraint_count_fails:
  assumes "k < 0" "k \<noteq> - 1"
  shows "select_safety_constraints applicable k g = Inl ValueError
       \<and> isl (generate_problem nl ni k g)
       \<and> (0 < nl \<and> nl \<le> 20 \<and> 0 \<le> ni \<and> ni \<le> 21
            \<longrightarrow> generate_problem nl ni k g = Inl ValueError)"
proof (intro conjI impI)
  show "select_safety_constraints applicable k g = Inl ValueError"
    using assms by (rule select_negative)
  show "isl (generate_problem nl ni k g)"
    using generate_data_negative_count [OF assms, of nl ni g]
    by (cases "generate_data nl ni k g") (auto simp: generate_problem_def)
  assume "0 < nl \<and> nl \<le> 20 \<and> 0 \<le> ni \<and> ni \<le> 21"
  then have "0 < nl" "nl \<le> 20" "0 \<le> ni" "ni \<le> 21" by simp_all
  from data_reaches_selection [OF this, of g]
  obtain locs its init il all g1 g2 g3 g4 where
    "random_sample ALL_LOCATIONS nl g = Inr (locs, g1)"
    "random_sample ALL_ITEMS ni g1 = Inr (its, g2)"
    "generate_random_initial_state locs its g2 = Inr ((init, il), g3)"
    "generate_safety_constraints locs its g3 = Inr (all, g4)" by blast
  then show "generate_problem nl ni k g = Inl ValueError"
    using select_negative [OF assms, of all g4]
    by (simp add: generate_problem_def generate_data_def)
qed

theorem negative_constraint_count_fails_witness:
  "generate_problem 2 3 (- 2) [4, 7, 1] = Inl ValueError
   \<and> select_safety_constraints [] (- 2) [4, 7, 1] = Inl ValueError"
  using negative_constraint_count_fails
          [where k = "- 2" and applicable = "[]" and g = "[4, 7, 1]" and nl = 2 and ni = 3]
  by simp

subsection \<open>Initial state\<close>

lemma place_items_shape:
  "place_items locs its acc im g = Inr (ps, im', g') \<Longrightarrow>
     \<exists>rest. ps = acc @ rest
       \<and> (\<forall>c\<in>set rest. \<exists>obj\<in>set its. \<exists>l\<in>set locs. c = at_fact obj l)"
proof (induction its arbitrary: acc im g)
  case Nil
  then show ?case by simp
next
  case (Cons obj its)
  from Cons.prems obtain l g1 where c: "random_choice locs g = Inr (l, g1)"
    and r: "place_items locs its (acc @ [at_fact obj l]) (im(name obj \<mapsto> l)) g1
              = Inr (ps, im', g')"
    by (auto split: sum.splits)
  from Cons.IH [OF r] obtain rest where rest: "ps = (acc @ [at_fact obj l]) @ rest"
    "\<forall>c\<in>set rest. \<exists>obj\<in>set its. \<exists>l\<in>set locs. c = at_fact obj l" by blast
  have l: "l \<in> set locs" using c by (rule random_choice_ok)
  have "ps = acc @ (at_fact obj l # rest)" using rest by simp
  moreover have "\<forall>c\<in>set (at_fact obj l # rest).
                   \<exists>obj\<in>set (obj # its). \<exists>l\<in>set locs. c = at_fact obj l"
    using rest(2) l by auto
  ultimately show ?case by blast
qed

lemma plug_items_shape:
  "plug_items its acc g = Inr (ps, g') \<Longrightarrow>
     \<exists>rest. ps = acc @ rest \<and> (\<forall>c\<in>set rest. \<exists>obj\<in>set its. c = plugged_fact obj)"
proof (induction its arbitrary: acc g)
  case Nil
  then show ?case by simp
next
  case (Cons obj its)
  show ?case
  proof (cases "ELECTRICAL \<in> properties obj")
    case False
    with Cons.prems have "plug_items its acc g = Inr (ps, g')" by simp
    from Cons.IH [OF this] show ?thesis by auto
  next
    case True
    with Cons.prems obtain b g1 where
      r: "plug_items its (if b then acc @ [plugged_fact obj] else acc) g1 = Inr (ps, g')"
      by (auto split: sum.splits)
    from Cons.IH [OF r] obtain rest where
      rest: "ps = (if b then acc @ [plugged_fact obj] else acc) @ rest"
        "\<forall>c\<in>set rest. \<exists>obj\<in>set its. c = plugged_fact obj" by blast
    show ?thesis
    proof (cases b)
      case True
      then have "ps = acc @ (plugged_fact obj # rest)" using rest by simp
      moreover have "\<forall>c\<in>set (plugged_fact obj # rest). \<exists>o'\<in>set (obj # its). c = plugged_fact o'"
        using rest(2) by auto
      ultimately show ?thesis by blast
    next
      case False
      then have "ps = acc @ rest" using rest by simp
      moreover have "\<forall>c\<in>set rest. \<exists>o'\<in>set (obj # its). c = plugged_fact o'"
        using rest(2) by auto
      ultimately show ?thesis by blast
    qed
  qed
qed

lemma not_robot_at:
  "take 10 (fst (at_fact obj l)) \<noteq> ''(robot-at ''"
  "take 10 (fst (plugged_fact obj)) \<noteq> ''(robot-at ''"
  by (simp_all add: at_fact_def plugged_fact_def)

lemma filter_none: "\<forall>c\<in>set xs. \<not> P c \<Longrightarrow> filter P xs = []"
  by (induction xs) auto

text \<open>
  C8. Whenever \<open>generate_random_initial_state\<close> returns, and it does for every non-empty
  list of locations and every random source, the first predicate is \<open>(robot-at l)\<close> for a
  location \<open>l\<close> of the list, the second is \<open>(left-hand-empty) (right-hand-empty)\<close>, every
  later one is an \<open>at\<close> or a \<open>plugged-in\<close> fact of an item, and so exactly one predicate
  is a \<open>robot-at\<close>.
\<close>

theorem initial_state_robot_and_hands:
  "(locations \<noteq> [] \<longrightarrow> (\<exists>r. generate_random_initial_state locations items g = Inr r))
   \<and> (\<forall>preds il g'. generate_random_initial_state locations items g = Inr ((preds, il), g') \<longrightarrow>
        (\<exists>loc\<in>set locations. \<exists>rest.
            preds = [(''(robot-at '' @ loc_name loc @ '')'',
                      ''The robot is at the '' @ loc_name loc @ ''.''),
                     (''(left-hand-empty) (right-hand-empty)'',
                      ''The robot's both hands are empty.'')] @ rest
          \<and> (\<forall>c\<in>set rest. (\<exists>obj\<in>set items. \<exists>l\<in>set locations. c = at_fact obj l)
                            \<or> (\<exists>obj\<in>set items. c = plugged_fact obj)))
        \<and> length (filter (\<lambda>c. take 10 (fst c) = ''(robot-at '') preds) = 1)"
proof (intro conjI allI impI)
  assume "locations \<noteq> []"
  from generate_random_initial_state_total [OF this, of items g]
  show "\<exists>r. generate_random_initial_state locations items g = Inr r" by blast
next
  fix preds il g'
  assume a: "generate_random_initial_state locations items g = Inr ((preds, il), g')"
  let ?head = "\<lambda>loc. [(''(robot-at '' @ loc_name loc @ '')'',
                        ''The robot is at the '' @ loc_name loc @ ''.''),
                       (''(left-hand-empty) (right-hand-empty)'',
                        ''The robot's both hands are empty.'')]"
  from a obtain loc g1 ps g2 where c: "random_choice locations g = Inr (loc, g1)"
    and p: "place_items locations items (?head loc) Map.empty g1 = Inr (ps, il, g2)"
    and q: "plug_items items ps g2 = Inr (preds, g')"
    by (auto simp: generate_random_initial_state_def split: sum.splits)
  from place_items_shape [OF p] obtain r1 where r1: "ps = ?head loc @ r1"
    "\<forall>c\<in>set r1. \<exists>obj\<in>set items. \<exists>l\<in>set locations. c = at_fact obj l" by blast
  from plug_items_shape [OF q] obtain r2 where r2: "preds = ps @ r2"
    "\<forall>c\<in>set r2. \<exists>obj\<in>set items. c = plugged_fact obj" by blast
  have loc: "loc \<in> set locations" using c by (rule random_choice_ok)
  have eq: "preds = ?head loc @ (r1 @ r2)" using r1(1) r2(1) by simp
  have rest: "\<forall>c\<in>set (r1 @ r2). (\<exists>obj\<in>set items. \<exists>l\<in>set locations. c = at_fact obj l)
                            \<or> (\<exists>obj\<in>set items. c = plugged_fact obj)"
    using r1(2) r2(2) by auto
  show "\<exists>loc\<in>set locations. \<exists>rest.
            preds = ?head loc @ rest
          \<and> (\<forall>c\<in>set rest. (\<exists>obj\<in>set items. \<exists>l\<in>set locations. c = at_fact obj l)
                            \<or> (\<exists>obj\<in>set items. c = plugged_fact obj))"
    using loc eq rest by blast
  have "\<forall>c\<in>set (r1 @ r2). \<not> take 10 (fst c) = ''(robot-at ''"
  proof
    fix c assume "c \<in> set (r1 @ r2)"
    with rest consider obj l where "c = at_fact obj l" | obj where "c = plugged_fact obj"
      by blast
    then show "\<not> take 10 (fst c) = ''(robot-at ''"
      by cases (simp_all only: not_robot_at not_False_eq_True)
  qed
  then have "filter (\<lambda>c. take 10 (fst c) = ''(robot-at '') (r1 @ r2) = []"
    by (rule filter_none)
  then show "length (filter (\<lambda>c. take 10 (fst c) = ''(robot-at '') preds) = 1"
    unfolding eq by simp
qed

lemma initial_state_example:
  "generate_random_initial_state
     [mk_location True ''kitchen'', mk_location False ''garden'']
     [mk_item {ELECTRICAL} ''hair-dryer'', mk_item {LIVING} ''cat''] [1, 0, 1, 0]
   = Inr (([(''(robot-at garden)'', ''The robot is at the garden.''),
            (''(left-hand-empty) (right-hand-empty)'', ''The robot's both hands are empty.''),
            (''(at hair-dryer kitchen)'', ''There is a hair-dryer on the kitchen.''),
            (''(at cat garden)'', ''There is a cat on the garden.''),
            (''(plugged-in hair-dryer)'', ''The hair-dryer is plugged in.'')],
           [''hair-dryer'' \<mapsto> mk_location True ''kitchen'',
            ''cat'' \<mapsto> mk_location False ''garden'']), [])"
  by (simp add: generate_random_initial_state_def random_choice_def mk_location_def mk_item_def
        at_fact_def plugged_fact_def)

theorem initial_state_robot_and_hands_witness:
  "length (filter (\<lambda>c. take 10 (fst c) = ''(robot-at '')
     [(''(robot-at garden)'', ''The robot is at the garden.''),
      (''(left-hand-empty) (right-hand-empty)'', ''The robot's both hands are empty.''),
      (''(at hair-dryer kitchen)'', ''There is a hair-dryer on the kitchen.''),
      (''(at cat garden)'', ''There is a cat on the garden.''),
      (''(plugged-in hair-dryer)'', ''The hair-dryer is plugged in.'')]) = 1
   \<and> (\<exists>r. generate_random_initial_state
             [mk_location True ''kitchen'', mk_location False ''garden'']
             [mk_item {ELECTRICAL} ''hair-dryer'', mk_item {LIVING} ''cat''] [1, 0, 1, 0] = Inr r)"
  using initial_state_robot_and_hands
          [of "[mk_location True ''kitchen'', mk_location False ''garden'']"
              "[mk_item {ELECTRICAL} ''hair-dryer'', mk_item {LIVING} ''cat'']" "[1, 0, 1, 0]"]
        initial_state_example
  by simp

subsection \<open>Goals\<close>

lemma loc_goal_loop_shape:
  "loc_goal_loop locs its acc g = Inr (gs, g') \<Longrightarrow>
     \<exists>dests. length dests = length its \<and> set dests \<subseteq> set locs
       \<and> gs = acc @ map (\<lambda>(obj, l). at_goal obj l) (zip its dests)"
proof (induction its arbitrary: acc g)
  case Nil
  then show ?case by simp
next
  case (Cons obj its)
  from Cons.prems obtain l g1 where c: "random_choice locs g = Inr (l, g1)"
    and r: "loc_goal_loop locs its (acc @ [at_goal obj l]) g1 = Inr (gs, g')"
    by (auto split: sum.splits)
  from Cons.IH [OF r] obtain dests where d: "length dests = length its" "set dests \<subseteq> set locs"
    "gs = (acc @ [at_goal obj l]) @ map (\<lambda>(obj, l). at_goal obj l) (zip its dests)" by blast
  have l: "l \<in> set locs" using c by (rule random_choice_ok)
  have "length (l # dests) = length (obj # its)" using d(1) by simp
  moreover have "set (l # dests) \<subseteq> set locs" using d(2) l by simp
  moreover have "gs = acc @ map (\<lambda>(obj, l). at_goal obj l) (zip (obj # its) (l # dests))"
    using d(3) by simp
  ultimately show ?case by blast
qed

lemma plug_goal_loop_shape:
  "plug_goal_loop its acc g = Inr (gs, g') \<Longrightarrow>
     \<exists>ps. gs = acc @ ps
       \<and> (\<forall>c\<in>set ps. \<exists>obj\<in>set its. c = plugged_goal obj \<or> c = unplugged_goal obj)"
proof (induction its arbitrary: acc g)
  case Nil
  then show ?case by simp
next
  case (Cons obj its)
  from Cons.prems obtain b g1 where
    r: "plug_goal_loop its (acc @ [if b then plugged_goal obj else unplugged_goal obj]) g1
          = Inr (gs, g')"
    by (auto split: sum.splits)
  define e where "e = (if b then plugged_goal obj else unplugged_goal obj)"
  from Cons.IH [OF r] obtain ps where ps: "gs = (acc @ [e]) @ ps"
    "\<forall>c\<in>set ps. \<exists>obj\<in>set its. c = plugged_goal obj \<or> c = unplugged_goal obj"
    unfolding e_def by blast
  have e: "e = plugged_goal obj \<or> e = unplugged_goal obj" by (simp add: e_def)
  have "gs = acc @ (e # ps)" using ps(1) by simp
  moreover have "\<forall>c\<in>set (e # ps). \<exists>o'\<in>set (obj # its). c = plugged_goal o' \<or> c = unplugged_goal o'"
    using ps(2) e by auto
  ultimately show ?case by blast
qed

lemma plug_goal_block_shape:
  assumes "plug_goal_block its acc g = Inr (gs, g')"
  shows "\<exists>ps. gs = acc @ ps
       \<and> (\<forall>c\<in>set ps. \<exists>obj\<in>set its. c = plugged_goal obj \<or> c = unplugged_goal obj)"
proof -
  from assms obtain n g1 pgi g2 where
    s: "random_sample (filter (\<lambda>e. ELECTRICAL \<in> properties e) its) n g1 = Inr (pgi, g2)"
    and l: "plug_goal_loop pgi acc g2 = Inr (gs, g')"
    by (auto simp: plug_goal_block_def Let_def split: sum.splits)
  from random_sample_set [OF s] have sub: "set pgi \<subseteq> set its" by auto
  from plug_goal_loop_shape [OF l] obtain ps where ps: "gs = acc @ ps"
    "\<forall>c\<in>set ps. \<exists>obj\<in>set pgi. c = plugged_goal obj \<or> c = unplugged_goal obj" by blast
  from ps(2) sub have "\<forall>c\<in>set ps. \<exists>obj\<in>set its. c = plugged_goal obj \<or> c = unplugged_goal obj"
    by blast
  with ps(1) show ?thesis by blast
qed

lemma holding_goal_block_shape:
  assumes "holding_goal_block its lgi acc g = Inr (gs, g')"
  shows "\<exists>hs. gs = acc @ map holding_goal hs
       \<and> mset hs \<subseteq># mset (filter (\<lambda>e. e \<notin> set lgi) its)
       \<and> length hs \<le> min 2 (length (filter (\<lambda>e. e \<notin> set lgi) its))"
proof -
  let ?cand = "filter (\<lambda>e. e \<notin> set lgi) its"
  from assms obtain n g1 hs where
    r: "random_randint 0 (min (int (length ?cand)) 2) g = Inr (n, g1)"
    and s: "random_sample ?cand n g1 = Inr (hs, g')"
    and gs: "gs = acc @ map holding_goal hs"
    by (auto simp: holding_goal_block_def Let_def split: sum.splits)
  from random_randint_ok [OF r] have n: "n \<le> min (int (length ?cand)) 2" by simp
  from random_sample_ok [OF s] have h: "int (length hs) = n" "mset hs \<subseteq># mset ?cand" by simp_all
  from n h(1) have "length hs \<le> min 2 (length ?cand)" by simp
  with gs h(2) show ?thesis by blast
qed

lemma robot_goal_block_shape:
  assumes "robot_goal_block locs acc g = Inr (gs, g')"
  shows "\<exists>rs. gs = acc @ rs \<and> (rs = [] \<or> (\<exists>l\<in>set locs. rs = [robot_goal l]))"
proof -
  from assms obtain b g1 where c: "random_choice [True, False] g = Inr (b, g1)"
    by (auto simp: robot_goal_block_def split: sum.splits)
  show ?thesis
  proof (cases b)
    case False
    with assms c have "gs = acc @ []" by (simp add: robot_goal_block_def)
    then show ?thesis by blast
  next
    case True
    with assms c obtain l where l: "random_choice locs g1 = Inr (l, g')"
      and gs: "gs = acc @ [robot_goal l]"
      by (auto simp: robot_goal_block_def split: sum.splits)
    from random_choice_ok [OF l] gs show ?thesis by blast
  qed
qed

lemma sample_nonempty:
  assumes "random_sample xs n g = Inr (ys, g')" "1 \<le> n"
  shows "ys \<noteq> []"
  using random_sample_ok [OF assms(1)] assms(2) by auto

text \<open>The shape of every goal list: the four blocks in the order of the source.\<close>

lemma generate_random_goals_shape:
  assumes "generate_random_goals locs its il g = Inr (goals, g')"
  shows "\<exists>lgi dests ps hs rs.
           goals = map (\<lambda>(obj, l). at_goal obj l) (zip lgi dests) @ ps @ map holding_goal hs @ rs
         \<and> lgi \<noteq> [] \<and> mset lgi \<subseteq># mset its
         \<and> length dests = length lgi \<and> set dests \<subseteq> set locs
         \<and> (\<forall>c\<in>set ps. \<exists>obj\<in>set its. c = plugged_goal obj \<or> c = unplugged_goal obj)
         \<and> mset hs \<subseteq># mset (filter (\<lambda>e. e \<notin> set lgi) its)
         \<and> length hs \<le> min 2 (length (filter (\<lambda>e. e \<notin> set lgi) its))
         \<and> (rs = [] \<or> (\<exists>l\<in>set locs. rs = [robot_goal l]))"
proof -
  from assms obtain n g1 lgi g2 gs1 g3 gs2 g4 gs3 g5 where
    a: "random_randint 1 (int (length its)) g = Inr (n, g1)"
    and b: "random_sample its n g1 = Inr (lgi, g2)"
    and c: "loc_goal_loop locs lgi [] g2 = Inr (gs1, g3)"
    and d: "plug_goal_block its gs1 g3 = Inr (gs2, g4)"
    and e: "holding_goal_block its lgi gs2 g4 = Inr (gs3, g5)"
    and f: "robot_goal_block locs gs3 g5 = Inr (goals, g')"
    by (auto simp: generate_random_goals_def split: sum.splits)
  from random_randint_ok [OF a] have "1 \<le> n" by simp
  with b have ne: "lgi \<noteq> []" by (rule sample_nonempty)
  from random_sample_ok [OF b] have sub: "mset lgi \<subseteq># mset its" by simp
  from loc_goal_loop_shape [OF c] obtain dests where
    dests: "length dests = length lgi" "set dests \<subseteq> set locs"
      "gs1 = [] @ map (\<lambda>(obj, l). at_goal obj l) (zip lgi dests)" by blast
  from plug_goal_block_shape [OF d] obtain ps where ps: "gs2 = gs1 @ ps"
    "\<forall>c\<in>set ps. \<exists>obj\<in>set its. c = plugged_goal obj \<or> c = unplugged_goal obj" by blast
  from holding_goal_block_shape [OF e] obtain hs where hs: "gs3 = gs2 @ map holding_goal hs"
    "mset hs \<subseteq># mset (filter (\<lambda>e. e \<notin> set lgi) its)"
    "length hs \<le> min 2 (length (filter (\<lambda>e. e \<notin> set lgi) its))" by blast
  from robot_goal_block_shape [OF f] obtain rs where rs: "goals = gs3 @ rs"
    "rs = [] \<or> (\<exists>l\<in>set locs. rs = [robot_goal l])" by blast
  have "goals = map (\<lambda>(obj, l). at_goal obj l) (zip lgi dests) @ ps @ map holding_goal hs @ rs"
    using dests(3) ps(1) hs(1) rs(1) by simp
  with ne sub dests(1,2) ps(2) hs(2,3) rs(2) show ?thesis by blast
qed

lemma goal_heads:
  "take 4 (fst (at_goal obj l)) = ''(at ''"
  "take 4 (fst (plugged_goal obj)) = ''(plu''"
  "take 4 (fst (unplugged_goal obj)) = ''(not''"
  "take 4 (fst (holding_goal obj)) = ''(or ''"
  "take 4 (fst (robot_goal l)) = ''(rob''"
  by (simp_all add: at_goal_def plugged_goal_def unplugged_goal_def holding_goal_def
        robot_goal_def)

lemma filter_all: "\<forall>c\<in>set xs. P c \<Longrightarrow> filter P xs = xs"
  by (induction xs) auto

lemma holding_goal_render: "fst (holding_goal obj) = render (held (name obj))"
  by (simp add: holding_goal_def held_def)

lemma holds_held:
  "\<not> is_variable n \<Longrightarrow>
     holds objs S E (held n)
       = Some ([''holding-left'', n] \<in> S \<or> [''holding-right'', n] \<in> S
               \<or> [''holding-both'', n] \<in> S)"
  by (simp add: held_def)

lemma goals_filter_at:
  assumes "length dests = length lgi"
    and "\<forall>c\<in>set ps. \<exists>obj\<in>set its. c = plugged_goal obj \<or> c = unplugged_goal obj"
    and "rs = [] \<or> (\<exists>l\<in>set locs. rs = [robot_goal l])"
  shows "filter (\<lambda>c. take 4 (fst c) = ''(at '')
           (map (\<lambda>(obj, l). at_goal obj l) (zip lgi dests) @ ps @ map holding_goal hs @ rs)
         = map (\<lambda>(obj, l). at_goal obj l) (zip lgi dests)"
proof -
  let ?P = "\<lambda>c. take 4 (fst c) = ''(at ''"
  have 1: "filter ?P (map (\<lambda>(obj, l). at_goal obj l) (zip lgi dests))
             = map (\<lambda>(obj, l). at_goal obj l) (zip lgi dests)"
  proof (rule filter_all, rule ballI)
    fix c assume "c \<in> set (map (\<lambda>(obj, l). at_goal obj l) (zip lgi dests))"
    then obtain obj l where "c = at_goal obj l" by auto
    then show "?P c" by (simp add: goal_heads)
  qed
  have 2: "filter ?P ps = []"
  proof (rule filter_none, rule ballI)
    fix c assume "c \<in> set ps"
    with assms(2) obtain obj where "c = plugged_goal obj \<or> c = unplugged_goal obj" by blast
    then show "\<not> ?P c" by (auto simp add: goal_heads)
  qed
  have 3: "filter ?P (map holding_goal hs) = []"
    by (rule filter_none) (auto simp add: goal_heads)
  have 4: "filter ?P rs = []"
    using assms(3) by (auto simp add: goal_heads)
  show ?thesis by (simp only: filter_append 1 2 3 4 append_Nil2)
qed

lemma goals_filter_or:
  assumes "length dests = length lgi"
    and "\<forall>c\<in>set ps. \<exists>obj\<in>set its. c = plugged_goal obj \<or> c = unplugged_goal obj"
    and "rs = [] \<or> (\<exists>l\<in>set locs. rs = [robot_goal l])"
  shows "filter (\<lambda>c. take 4 (fst c) = ''(or '')
           (map (\<lambda>(obj, l). at_goal obj l) (zip lgi dests) @ ps @ map holding_goal hs @ rs)
         = map holding_goal hs"
proof -
  let ?P = "\<lambda>c. take 4 (fst c) = ''(or ''"
  have 1: "filter ?P (map (\<lambda>(obj, l). at_goal obj l) (zip lgi dests)) = []"
    by (rule filter_none) (auto simp add: goal_heads)
  have 2: "filter ?P ps = []"
  proof (rule filter_none, rule ballI)
    fix c assume "c \<in> set ps"
    with assms(2) obtain obj where "c = plugged_goal obj \<or> c = unplugged_goal obj" by blast
    then show "\<not> ?P c" by (auto simp add: goal_heads)
  qed
  have 3: "filter ?P (map holding_goal hs) = map holding_goal hs"
  proof (rule filter_all, rule ballI)
    fix c assume "c \<in> set (map holding_goal hs)"
    then obtain obj where "c = holding_goal obj" by auto
    then show "?P c" by (simp add: goal_heads)
  qed
  have 4: "filter ?P rs = []"
    using assms(3) by (auto simp add: goal_heads)
  show ?thesis by (simp only: filter_append 1 2 3 4 append_Nil2 append_Nil)
qed

text \<open>
  C7. In every goal list that \<open>generate_random_goals\<close> returns for pairwise different
  items (as every sample of the catalog is), the clauses starting with \<open>(at\<close> are the
  location goals of some items \<open>loc_goal_items\<close>, the clauses starting with \<open>(or\<close> are the
  holding goals of some items \<open>holding_goal_items\<close>, no item is in both lists, and there
  are at most \<open>min 2 n\<close> holding goals, \<open>n\<close> being the number of items without a location
  goal. Each holding goal is the text of the disjunction \<open>held\<close>, which is true exactly
  when the item is held in the left hand, in the right hand or in both.
\<close>

theorem holding_goals_disjoint_from_location_goals:
  assumes "generate_random_goals locations items il g = Inr (goals, g')"
    and "distinct items"
  shows "\<exists>loc_goal_items dests holding_goal_items.
      filter (\<lambda>c. take 4 (fst c) = ''(at '') goals
        = map (\<lambda>(obj, l). at_goal obj l) (zip loc_goal_items dests)
    \<and> length dests = length loc_goal_items
    \<and> filter (\<lambda>c. take 4 (fst c) = ''(or '') goals = map holding_goal holding_goal_items
    \<and> set loc_goal_items \<subseteq> set items \<and> set holding_goal_items \<subseteq> set items
    \<and> set holding_goal_items \<inter> set loc_goal_items = {}
    \<and> length holding_goal_items
        \<le> min 2 (length (filter (\<lambda>e. e \<notin> set loc_goal_items) items))
    \<and> (\<forall>obj\<in>set holding_goal_items.
          fst (holding_goal obj) = render (held (name obj))
        \<and> (\<not> is_variable (name obj) \<longrightarrow>
             (\<forall>objs S E. holds objs S E (held (name obj))
                = Some ([''holding-left'', name obj] \<in> S \<or> [''holding-right'', name obj] \<in> S
                        \<or> [''holding-both'', name obj] \<in> S))))"
proof -
  from generate_random_goals_shape [OF assms(1)]
  obtain lgi dests ps hs rs where
    goals: "goals = map (\<lambda>(obj, l). at_goal obj l) (zip lgi dests) @ ps @ map holding_goal hs @ rs"
    and sub: "mset lgi \<subseteq># mset items"
    and len: "length dests = length lgi"
    and ps: "\<forall>c\<in>set ps. \<exists>obj\<in>set items. c = plugged_goal obj \<or> c = unplugged_goal obj"
    and hs: "mset hs \<subseteq># mset (filter (\<lambda>e. e \<notin> set lgi) items)"
      "length hs \<le> min 2 (length (filter (\<lambda>e. e \<notin> set lgi) items))"
    and rs: "rs = [] \<or> (\<exists>l\<in>set locations. rs = [robot_goal l])"
    by blast
  have f1: "filter (\<lambda>c. take 4 (fst c) = ''(at '') goals
              = map (\<lambda>(obj, l). at_goal obj l) (zip lgi dests)"
    unfolding goals using len ps rs by (rule goals_filter_at)
  have f2: "filter (\<lambda>c. take 4 (fst c) = ''(or '') goals = map holding_goal hs"
    unfolding goals using len ps rs by (rule goals_filter_or)
  have s1: "set lgi \<subseteq> set items"
    using set_mset_mono [OF sub] by simp
  have s2: "set hs \<subseteq> set (filter (\<lambda>e. e \<notin> set lgi) items)"
    using set_mset_mono [OF hs(1)] by simp
  then have s3: "set hs \<subseteq> set items" and s4: "set hs \<inter> set lgi = {}" by auto
  have sem: "\<forall>obj\<in>set hs.
          fst (holding_goal obj) = render (held (name obj))
        \<and> (\<not> is_variable (name obj) \<longrightarrow>
             (\<forall>objs S E. holds objs S E (held (name obj))
                = Some ([''holding-left'', name obj] \<in> S \<or> [''holding-right'', name obj] \<in> S
                        \<or> [''holding-both'', name obj] \<in> S)))"
    using holding_goal_render holds_held by blast
  from f1 len f2 s1 s3 s4 hs(2) sem show ?thesis by blast
qed

lemma goals_example:
  "generate_random_goals [mk_location True ''office'']
     [mk_item {LIVING} ''cat'', mk_item {} ''lego-set''] Map.empty [0, 0, 0, 0, 1, 0, 1]
   = Inr ([(''(at cat office)'', ''The cat should be in the office.''),
           (''(or (holding-left lego-set) (holding-right lego-set) (holding-both lego-set))'',
            ''The robot should be holding the lego-set.'')], [])"
  by code_simp

theorem holding_goals_disjoint_from_location_goals_witness:
  "\<exists>loc_goal_items dests holding_goal_items.
      [(''(at cat office)'', ''The cat should be in the office.'')]
        = map (\<lambda>(obj, l). at_goal obj l) (zip loc_goal_items dests)
    \<and> [(''(or (holding-left lego-set) (holding-right lego-set) (holding-both lego-set))'',
         ''The robot should be holding the lego-set.'')]
        = map holding_goal holding_goal_items
    \<and> set holding_goal_items \<inter> set loc_goal_items = {}
    \<and> length holding_goal_items \<le> 2"
proof -
  have d: "distinct [mk_item {LIVING} ''cat'', mk_item {} ''lego-set'']"
    by (simp add: mk_item_def)
  from holding_goals_disjoint_from_location_goals [OF goals_example d]
  obtain lgi dests hs where
    h1: "filter (\<lambda>c. take 4 (fst c) = ''(at '')
       [(''(at cat office)'', ''The cat should be in the office.''),
        (''(or (holding-left lego-set) (holding-right lego-set) (holding-both lego-set))'',
         ''The robot should be holding the lego-set.'')]
       = map (\<lambda>(obj, l). at_goal obj l) (zip lgi dests)"
    and h2: "filter (\<lambda>c. take 4 (fst c) = ''(or '')
       [(''(at cat office)'', ''The cat should be in the office.''),
        (''(or (holding-left lego-set) (holding-right lego-set) (holding-both lego-set))'',
         ''The robot should be holding the lego-set.'')]
       = map holding_goal hs"
    and h3: "set hs \<inter> set lgi = {}"
    and h4: "length hs \<le> min 2 (length (filter (\<lambda>e. e \<notin> set lgi)
                                 [mk_item {LIVING} ''cat'', mk_item {} ''lego-set'']))"
    by blast
  from h1 have g1: "[(''(at cat office)'', ''The cat should be in the office.'')]
        = map (\<lambda>(obj, l). at_goal obj l) (zip lgi dests)" by simp
  from h2 have g2:
    "[(''(or (holding-left lego-set) (holding-right lego-set) (holding-both lego-set))'',
         ''The robot should be holding the lego-set.'')]
        = map holding_goal hs" by simp
  from h4 have g4: "length hs \<le> 2" by (rule min.boundedE)
  from g1 g2 h3 g4
  have all: "[(''(at cat office)'', ''The cat should be in the office.'')]
        = map (\<lambda>(obj, l). at_goal obj l) (zip lgi dests)
    \<and> [(''(or (holding-left lego-set) (holding-right lego-set) (holding-both lego-set))'',
         ''The robot should be holding the lego-set.'')]
        = map holding_goal hs
    \<and> set hs \<inter> set lgi = {}
    \<and> length hs \<le> 2"
    by (intro conjI)
  show ?thesis
    apply (rule exI [of _ lgi])
    apply (rule exI [of _ dests])
    apply (rule exI [of _ hs])
    by (rule all)
qed

lemma generate_random_goals_no_items:
  "generate_random_goals locs [] il g = Inl ValueError"
  by (simp add: generate_random_goals_def random_randint_def)

lemma random_sample_zero: "random_sample xs 0 g = Inr ([], g)"
  by (simp add: random_sample_def)

lemma generate_data_no_items: "isl (generate_data nl 0 nc g)"
  by (simp add: generate_data_def random_sample_zero generate_random_goals_no_items
        split: sum.splits prod.splits)

lemma generate_data_parts:
  assumes "generate_data nl ni nc g = Inr (inst, g')"
  shows "\<exists>g1 g2 g3 g4 g5 init il all.
           random_sample ALL_LOCATIONS nl g = Inr (p_locations inst, g1)
         \<and> random_sample ALL_ITEMS ni g1 = Inr (p_items inst, g2)
         \<and> generate_random_initial_state (p_locations inst) (p_items inst) g2
             = Inr ((p_initial_state inst, il), g3)
         \<and> generate_safety_constraints (p_locations inst) (p_items inst) g3 = Inr (all, g4)
         \<and> select_safety_constraints all nc g4 = Inr (p_selected inst, g5)
         \<and> generate_random_goals (p_locations inst) (p_items inst) il g5
             = Inr (p_goals inst, g')"
  using assms by (auto simp: generate_data_def split: sum.splits)

text \<open>
  C9. With no items \<open>generate_random_goals\<close> raises ValueError, because the number of
  location goals is drawn from the empty range \<open>[1, 0]\<close>. So \<open>generate_problem\<close> returns
  no problem for \<open>num_items = 0\<close>, although sampling zero items from the catalog succeeds.
  In every instance that is generated, the first goal is a location goal of a sampled
  item at a sampled location.
\<close>

theorem no_items_no_goals:
  "generate_random_goals locations [] il g = Inl ValueError
   \<and> random_sample ALL_ITEMS 0 g = Inr ([], g)
   \<and> isl (generate_problem nl 0 nc g)
   \<and> (\<forall>inst g'. generate_data nl ni nc g = Inr (inst, g') \<longrightarrow>
        p_goals inst \<noteq> []
        \<and> (\<exists>obj\<in>set (p_items inst). \<exists>l\<in>set (p_locations inst).
              hd (p_goals inst) = at_goal obj l))"
proof (intro conjI allI impI)
  show "generate_random_goals locations [] il g = Inl ValueError"
    by (rule generate_random_goals_no_items)
  show "random_sample ALL_ITEMS 0 g = Inr ([], g)"
    by (rule random_sample_zero)
  show "isl (generate_problem nl 0 nc g)"
    using generate_data_no_items [of nl nc g]
    by (cases "generate_data nl 0 nc g") (auto simp: generate_problem_def)
next
  fix inst g'
  assume a: "generate_data nl ni nc g = Inr (inst, g')"
  from generate_data_parts [OF a] obtain il' g5 where
    gg: "generate_random_goals (p_locations inst) (p_items inst) il' g5 = Inr (p_goals inst, g')"
    by auto
  from generate_random_goals_shape [OF gg]
  obtain lgi dests rest where
    goals: "p_goals inst = map (\<lambda>(obj, l). at_goal obj l) (zip lgi dests) @ rest"
    and ne: "lgi \<noteq> []" and sub: "mset lgi \<subseteq># mset (p_items inst)"
    and len: "length dests = length lgi" and ds: "set dests \<subseteq> set (p_locations inst)"
    by blast
  from ne len obtain obj lgi' l dests' where c: "lgi = obj # lgi'" "dests = l # dests'"
    by (cases lgi; cases dests) auto
  have "obj \<in> set (p_items inst)"
    using set_mset_mono [OF sub] c(1) by auto
  moreover have "l \<in> set (p_locations inst)" using ds c(2) by auto
  moreover have "hd (p_goals inst) = at_goal obj l" using goals c by simp
  moreover have "p_goals inst \<noteq> []" using goals c by simp
  ultimately show "p_goals inst \<noteq> []"
    and "\<exists>obj\<in>set (p_items inst). \<exists>l\<in>set (p_locations inst). hd (p_goals inst) = at_goal obj l"
    by blast+
qed

lemma generate_data_example:
  "generate_data 1 1 (- 1) [0, 0, 0, 0, 0, 0, 0, 0, 0, 0]
   = Inr (\<lparr> p_locations = [mk_location True ''office''],
             p_items = [mk_item {LIVING} ''cat''],
             p_initial_state =
               [(''(robot-at office)'', ''The robot is at the office.''),
                (''(left-hand-empty) (right-hand-empty)'', ''The robot's both hands are empty.''),
                (''(at cat office)'', ''There is a cat on the office.'')],
             p_selected =
               [(''(forall (?l - location) (not (and (robot-at ?l) (at cat ?l))))'',
                 ''The robot should never be in the same place as the cat.'')],
             p_goals =
               [(''(at cat office)'', ''The cat should be in the office.''),
                (''(robot-at office)'', ''The robot should be at the office.'')] \<rparr>, [])"
  by code_simp

theorem no_items_no_goals_witness:
  "hd [(''(at cat office)'', ''The cat should be in the office.''),
       (''(robot-at office)'', ''The robot should be at the office.'')]
     \<in> {at_goal obj l | obj l. obj \<in> {mk_item {LIVING} ''cat''} \<and> l \<in> {mk_location True ''office''}}
   \<and> isl (generate_problem 1 0 (- 1) [0, 0, 0, 0, 0, 0, 0, 0, 0, 0])"
  using no_items_no_goals [where nl = 1 and ni = 1 and nc = "- 1"
          and g = "[0, 0, 0, 0, 0, 0, 0, 0, 0, 0]"]
        generate_data_example
  by simp

subsection \<open>Serialisation\<close>

text \<open>
  C4. For every instance, the two problem texts are equal when no constraint is selected.
  Otherwise the text with constraints is the text without constraints with the block
  \<open>(:constraints ...)\<close>, holding the selected formulas in order, inserted just before
  its last three characters, which are the closing parenthesis, a space and a newline.
\<close>

theorem constraints_block_round_trip:
  assumes "format_problem inst = (p, pwo, init_d, goal_d, constr_d)"
  shows "(p_selected inst = [] \<longrightarrow> p = pwo)
       \<and> (p_selected inst \<noteq> [] \<longrightarrow>
            p = take (length pwo - 3) pwo
                @ ''  (:constraints '' @ newline
                @ ''    '' @ join_str ('' '' @ newline @ ''    '') (map fst (p_selected inst))
                @ '' '' @ newline
                @ ''  ) '' @ newline
                @ drop (length pwo - 3) pwo)
       \<and> drop (length pwo - 3) pwo = '') '' @ newline"
proof -
  from assms have p: "p = problem_with_constraints inst"
    and w: "pwo = problem_without_constraints inst"
    by (simp_all add: format_problem_def)
  have n: "length newline = 1" by (simp add: newline_def)
  have len: "length pwo - 3 = length (problem_text inst)"
    unfolding w problem_without_constraints_def by (simp add: n)
  have t: "take (length pwo - 3) pwo = problem_text inst"
    unfolding len unfolding w problem_without_constraints_def by simp
  have d: "drop (length pwo - 3) pwo = '') '' @ newline"
    unfolding len unfolding w problem_without_constraints_def by simp
  show ?thesis
    unfolding t d
    by (simp add: p w problem_with_constraints_def problem_without_constraints_def
          constraints_block_def)
qed

theorem constraints_block_round_trip_witness:
  "problem_with_constraints
     \<lparr> p_locations = [mk_location True ''office''], p_items = [mk_item {LIVING} ''cat''],
       p_initial_state = [(''(robot-at office)'', ''The robot is at the office.'')],
       p_selected = [dont_go_near_item (mk_item {LIVING} ''cat'')],
       p_goals = [(''(robot-at office)'', ''The robot should be at the office.'')] \<rparr>
   = take (length (problem_without_constraints
         \<lparr> p_locations = [mk_location True ''office''], p_items = [mk_item {LIVING} ''cat''],
           p_initial_state = [(''(robot-at office)'', ''The robot is at the office.'')],
           p_selected = [dont_go_near_item (mk_item {LIVING} ''cat'')],
           p_goals = [(''(robot-at office)'', ''The robot should be at the office.'')] \<rparr>) - 3)
       (problem_without_constraints
         \<lparr> p_locations = [mk_location True ''office''], p_items = [mk_item {LIVING} ''cat''],
           p_initial_state = [(''(robot-at office)'', ''The robot is at the office.'')],
           p_selected = [dont_go_near_item (mk_item {LIVING} ''cat'')],
           p_goals = [(''(robot-at office)'', ''The robot should be at the office.'')] \<rparr>)
     @ ''  (:constraints '' @ newline
     @ ''    (forall (?l - location) (not (and (robot-at ?l) (at cat ?l)))) '' @ newline
     @ ''  ) '' @ newline @ '') '' @ newline"
  using constraints_block_round_trip [where inst =
     "\<lparr> p_locations = [mk_location True ''office''], p_items = [mk_item {LIVING} ''cat''],
       p_initial_state = [(''(robot-at office)'', ''The robot is at the office.'')],
       p_selected = [dont_go_near_item (mk_item {LIVING} ''cat'')],
       p_goals = [(''(robot-at office)'', ''The robot should be at the office.'')] \<rparr>",
     OF format_problem_def]
  by (simp add: dont_go_near_item_def mk_item_def)

lemma distinct_sub_mset:
  assumes "distinct ys" "mset xs \<subseteq># mset ys"
  shows "distinct xs"
proof -
  have le: "count (mset xs) a \<le> 1" for a
  proof -
    have "count (mset xs) a \<le> count (mset ys) a"
      using assms(2) by (rule mset_subset_eq_count)
    also have "\<dots> \<le> 1" using assms(1) by (simp add: distinct_count_atmost_1)
    finally show ?thesis .
  qed
  have "count (mset xs) a = (if a \<in> set xs then 1 else 0)" for a
  proof (cases "a \<in> set xs")
    case True
    then have "a \<in># mset xs" by simp
    then have "0 < count (mset xs) a" by (simp only: count_greater_zero_iff)
    with le [of a] have "count (mset xs) a = 1" by linarith
    with True show ?thesis by simp
  next
    case False
    then show ?thesis by (simp add: count_mset_0_iff)
  qed
  then show ?thesis by (simp only: distinct_count_atmost_1 simp_thms)
qed

lemma catalog_names_distinct: "distinct (map name ALL_ITEMS)"
  by (simp add: ALL_ITEMS_def LIVING_ITEMS_def DANGEROUS_ITEMS_def ELECTRICAL_ITEMS_def
        FRAGILE_ITEMS_def OTHER_ITEMS_def mk_item_def)

lemma sampled_names_distinct:
  assumes "random_sample ALL_ITEMS k g = Inr (its, g')"
  shows "distinct (map name its)"
proof -
  from random_sample_ok [OF assms] have "mset its \<subseteq># mset ALL_ITEMS" by simp
  then have "image_mset name (mset its) \<subseteq># image_mset name (mset ALL_ITEMS)"
    by (rule image_mset_subseteq_mono)
  then have "mset (map name its) \<subseteq># mset (map name ALL_ITEMS)" by simp
  with catalog_names_distinct show ?thesis by (rule distinct_sub_mset)
qed

lemma names_partition:
  "mset (electrical_items_names its) + mset (non_electrical_items_names its)
     = mset (map name its)"
  by (induction its) (simp_all add: electrical_items_names_def non_electrical_items_names_def)

lemma names_typed:
  assumes "distinct (map name its)" "obj \<in> set its"
  shows "(name obj \<in> set (electrical_items_names its) \<longleftrightarrow> ELECTRICAL \<in> properties obj)
       \<and> (name obj \<in> set (non_electrical_items_names its) \<longleftrightarrow> ELECTRICAL \<notin> properties obj)"
proof -
  have inj: "inj_on name (set its)" using assms(1) by (simp add: distinct_map)
  have same: "o' = obj" if "o' \<in> set its" "name o' = name obj" for o'
    using inj that assms(2) by (auto dest: inj_onD)
  have e: "name obj \<in> set (electrical_items_names its) \<longleftrightarrow> ELECTRICAL \<in> properties obj"
  proof
    assume "name obj \<in> set (electrical_items_names its)"
    then obtain o' where o': "o' \<in> set its" "ELECTRICAL \<in> properties o'" "name o' = name obj"
      unfolding electrical_items_names_def by auto
    from same [OF o'(1,3)] o'(2) show "ELECTRICAL \<in> properties obj" by simp
  next
    assume "ELECTRICAL \<in> properties obj"
    with assms(2) have "obj \<in> set (filter (\<lambda>e. ELECTRICAL \<in> properties e) its)" by simp
    then show "name obj \<in> set (electrical_items_names its)"
      unfolding electrical_items_names_def set_map by (rule imageI)
  qed
  have n: "name obj \<in> set (non_electrical_items_names its) \<longleftrightarrow> ELECTRICAL \<notin> properties obj"
  proof
    assume "name obj \<in> set (non_electrical_items_names its)"
    then obtain o' where o': "o' \<in> set its" "ELECTRICAL \<notin> properties o'" "name o' = name obj"
      unfolding non_electrical_items_names_def by auto
    from same [OF o'(1,3)] o'(2) show "ELECTRICAL \<notin> properties obj" by simp
  next
    assume "ELECTRICAL \<notin> properties obj"
    with assms(2) have "obj \<in> set (filter (\<lambda>e. ELECTRICAL \<notin> properties e) its)" by simp
    then show "name obj \<in> set (non_electrical_items_names its)"
      unfolding non_electrical_items_names_def set_map by (rule imageI)
  qed
  from e n show ?thesis by (rule conjI)
qed

lemma objects_section_lines:
  "objects_section locs its =
     ''  (:objects '' @ newline
     @ ''    '' @ join_str '' '' (map loc_name locs) @ '' - location '' @ newline
     @ (if \<forall>obj\<in>set its. ELECTRICAL \<in> properties obj then []
        else ''    '' @ join_str '' '' (non_electrical_items_names its) @ '' - item '' @ newline)
     @ (if \<forall>obj\<in>set its. ELECTRICAL \<notin> properties obj then []
        else ''    '' @ join_str '' '' (electrical_items_names its) @ '' - electrical-item ''
             @ newline)
     @ ''  ) '' @ newline"
proof -
  have a: "(0 < length (non_electrical_items_names its))
             = (\<not> (\<forall>obj\<in>set its. ELECTRICAL \<in> properties obj))"
    by (auto simp: non_electrical_items_names_def filter_empty_conv)
  have b: "(0 < length (electrical_items_names its))
             = (\<not> (\<forall>obj\<in>set its. ELECTRICAL \<notin> properties obj))"
    by (auto simp: electrical_items_names_def filter_empty_conv)
  show ?thesis unfolding objects_section_def a b by simp
qed

text \<open>
  C5. In every generated instance the items have pairwise different names, and the text of
  both problems starts with the two header lines followed by \<open>objects_section\<close>. There,
  the name of a sampled item is in the list typed \<open>electrical-item\<close> exactly when the item
  is electrical, and in the list typed \<open>item\<close> exactly when it is not; the two lists
  together are the names of the sampled items, each once. The line of a list is left out
  when no sampled item belongs to it.
\<close>

theorem objects_section_typing:
  assumes "generate_data nl ni nc g = Inr (inst, g')"
  shows "(\<forall>obj\<in>set (p_items inst).
            (name obj \<in> set (electrical_items_names (p_items inst))
               \<longleftrightarrow> ELECTRICAL \<in> properties obj)
          \<and> (name obj \<in> set (non_electrical_items_names (p_items inst))
               \<longleftrightarrow> ELECTRICAL \<notin> properties obj))
       \<and> mset (electrical_items_names (p_items inst))
           + mset (non_electrical_items_names (p_items inst)) = mset (map name (p_items inst))
       \<and> distinct (map name (p_items inst))
       \<and> objects_section (p_locations inst) (p_items inst) =
           ''  (:objects '' @ newline
           @ ''    '' @ join_str '' '' (map loc_name (p_locations inst)) @ '' - location ''
           @ newline
           @ (if \<forall>obj\<in>set (p_items inst). ELECTRICAL \<in> properties obj then []
              else ''    '' @ join_str '' '' (non_electrical_items_names (p_items inst))
                   @ '' - item '' @ newline)
           @ (if \<forall>obj\<in>set (p_items inst). ELECTRICAL \<notin> properties obj then []
              else ''    '' @ join_str '' '' (electrical_items_names (p_items inst))
                   @ '' - electrical-item '' @ newline)
           @ ''  ) '' @ newline
       \<and> (\<exists>rest. problem_without_constraints inst =
             ''(define (problem random-manipulation) '' @ newline
             @ ''  (:domain manipulation) '' @ newline
             @ objects_section (p_locations inst) (p_items inst) @ rest)
       \<and> (\<exists>rest. problem_with_constraints inst =
             ''(define (problem random-manipulation) '' @ newline
             @ ''  (:domain manipulation) '' @ newline
             @ objects_section (p_locations inst) (p_items inst) @ rest)"
proof -
  from generate_data_parts [OF assms] obtain g1 g2 where
    "random_sample ALL_ITEMS ni g1 = Inr (p_items inst, g2)" by auto
  then have d: "distinct (map name (p_items inst))" by (rule sampled_names_distinct)
  have t: "\<forall>obj\<in>set (p_items inst).
            (name obj \<in> set (electrical_items_names (p_items inst))
               \<longleftrightarrow> ELECTRICAL \<in> properties obj)
          \<and> (name obj \<in> set (non_electrical_items_names (p_items inst))
               \<longleftrightarrow> ELECTRICAL \<notin> properties obj)"
    using names_typed [OF d] by (intro ballI)
  have w: "\<exists>rest. problem_without_constraints inst =
             ''(define (problem random-manipulation) '' @ newline
             @ ''  (:domain manipulation) '' @ newline
             @ objects_section (p_locations inst) (p_items inst) @ rest"
    unfolding problem_without_constraints_def problem_text_def by simp
  have c: "\<exists>rest. problem_with_constraints inst =
             ''(define (problem random-manipulation) '' @ newline
             @ ''  (:domain manipulation) '' @ newline
             @ objects_section (p_locations inst) (p_items inst) @ rest"
    unfolding problem_with_constraints_def problem_text_def by simp
  show ?thesis
    apply (intro conjI)
         apply (rule t)
        apply (rule names_partition)
       apply (rule d)
      apply (rule objects_section_lines)
     apply (rule w)
    apply (rule c)
    done
qed

lemma generate_data_example_typed:
  "generate_data 1 2 0 [0, 5, 0, 0, 0, 0, 0, 0, 0, 0, 0, 0, 0, 0, 0, 0]
   = Inr (\<lparr> p_locations = [mk_location True ''office''],
             p_items = [mk_item {ELECTRICAL} ''electric-kettle'', mk_item {LIVING} ''cat''],
             p_initial_state =
               [(''(robot-at office)'', ''The robot is at the office.''),
                (''(left-hand-empty) (right-hand-empty)'', ''The robot's both hands are empty.''),
                (''(at electric-kettle office)'', ''There is a electric-kettle on the office.''),
                (''(at cat office)'', ''There is a cat on the office.''),
                (''(plugged-in electric-kettle)'', ''The electric-kettle is plugged in.'')],
             p_selected = [],
             p_goals =
               [(''(at electric-kettle office)'', ''The electric-kettle should be in the office.''),
                (''(robot-at office)'', ''The robot should be at the office.'')] \<rparr>, [0, 0])"
  by code_simp

theorem objects_section_typing_witness:
  "''electric-kettle'' \<in> set (electrical_items_names
       [mk_item {ELECTRICAL} ''electric-kettle'', mk_item {LIVING} ''cat''])
   \<and> ''cat'' \<notin> set (electrical_items_names
       [mk_item {ELECTRICAL} ''electric-kettle'', mk_item {LIVING} ''cat''])
   \<and> ''cat'' \<in> set (non_electrical_items_names
       [mk_item {ELECTRICAL} ''electric-kettle'', mk_item {LIVING} ''cat''])
   \<and> objects_section [mk_location True ''office'']
       [mk_item {ELECTRICAL} ''electric-kettle'', mk_item {LIVING} ''cat'']
     = ''  (:objects '' @ newline @ ''    office - location '' @ newline
       @ ''    cat - item '' @ newline @ ''    electric-kettle - electrical-item '' @ newline
       @ ''  ) '' @ newline"
  using objects_section_typing [OF generate_data_example_typed]
  by (simp add: mk_item_def mk_location_def electrical_items_names_def
        non_electrical_items_names_def)

subsection \<open>The co-transport template\<close>

text \<open>
  C6. The formula of \<open>dont_take_item_to_location_with_another\<close> for the chef's knife and
  the cat, read back, quantifies over a location that only the cat's \<open>at\<close> atom mentions:
  it has no \<open>robot-at\<close> atom. In the state where the robot is in the kitchen and holds the
  knife in its left hand while the cat is in the bedroom, the formula is false, although
  the robot is not where the cat is; the keep-distance formula of \<open>dont_go_near_item\<close>,
  which does mention \<open>robot-at\<close>, is true in that state.
\<close>

theorem co_transport_ignores_robot_location:
  "parse_formula (fst (dont_take_item_to_location_with_another
       (mk_item {DANGEROUS} ''chefs-knife'') (mk_item {LIVING} ''cat'')))
     = Some (Node [Atom ''forall'', Node [Atom ''?l'', Atom ''-'', Atom ''location''],
          Node [Atom ''not'',
            Node [Atom ''and'', held ''chefs-knife'',
                  Node [Atom ''at'', Atom ''cat'', Atom ''?l'']]]])
   \<and> map_option
       (holds [(''kitchen'', ''location''), (''bedroom'', ''location'')]
          {[''robot-at'', ''kitchen''], [''holding-left'', ''chefs-knife''],
           [''at'', ''cat'', ''bedroom'']} [])
       (parse_formula (fst (dont_take_item_to_location_with_another
          (mk_item {DANGEROUS} ''chefs-knife'') (mk_item {LIVING} ''cat''))))
     = Some (Some False)
   \<and> map_option
       (holds [(''kitchen'', ''location''), (''bedroom'', ''location'')]
          {[''robot-at'', ''kitchen''], [''holding-left'', ''chefs-knife''],
           [''at'', ''cat'', ''bedroom'']} [])
       (parse_formula (fst (dont_go_near_item (mk_item {LIVING} ''cat''))))
     = Some (Some True)"
  by code_simp

subsection \<open>The rejection loop\<close>

lemma loop_unfold:
  assumes "generate_problem nl ni nc g = Inr ((p, pwo, i, gd, c), g1)"
  shows "generate_one_useful_instance planner d nl ni nc g =
           (if planner d p = planner d pwo
            then generate_one_useful_instance planner d nl ni nc g1
            else Some (Inr ((p, i, gd, c), g1)))"
  by (subst generate_one_useful_instance.simps)
     (simp add: assms optimal_solutions_are_equal_def)

lemma loop_sound:
  assumes "generate_one_useful_instance planner d nl ni nc g = Some y"
  shows "\<forall>p i gd c g'. y = Inr ((p, i, gd, c), g') \<longrightarrow>
     (\<exists>n g0 pwo. rejected_candidates planner d nl ni nc n g = Some g0
        \<and> generate_problem nl ni nc g0 = Inr ((p, pwo, i, gd, c), g')
        \<and> planner d p \<noteq> planner d pwo)"
proof (rule generate_one_useful_instance.raw_induct
    [where P = "\<lambda>planner d nl ni nc g y. \<forall>p i gd c g'. y = Inr ((p, i, gd, c), g') \<longrightarrow>
     (\<exists>n g0 pwo. rejected_candidates planner d nl ni nc n g = Some g0
        \<and> generate_problem nl ni nc g0 = Inr ((p, pwo, i, gd, c), g')
        \<and> planner d p \<noteq> planner d pwo)", OF _ assms])
  fix f :: "'a planner \<Rightarrow> string \<Rightarrow> int \<Rightarrow> int \<Rightarrow> int \<Rightarrow> rng
            \<Rightarrow> (error + ((string \<times> string \<times> string \<times> string) \<times> rng)) option"
  fix planner :: "'a planner" and d nl ni nc g y
  assume IH: "\<And>planner d nl ni nc g y. f planner d nl ni nc g = Some y \<Longrightarrow>
     \<forall>p i gd c g'. y = Inr ((p, i, gd, c), g') \<longrightarrow>
     (\<exists>n g0 pwo. rejected_candidates planner d nl ni nc n g = Some g0
        \<and> generate_problem nl ni nc g0 = Inr ((p, pwo, i, gd, c), g')
        \<and> planner d p \<noteq> planner d pwo)"
  assume step: "(case generate_problem nl ni nc g of
        Inl e \<Rightarrow> Some (Inl e)
      | Inr ((pddl_problem, pddl_problem_wo_constraints, init_desc, goal_desc, constr_desc), g') \<Rightarrow>
          if \<not> optimal_solutions_are_equal planner d pddl_problem pddl_problem_wo_constraints
          then Some (Inr ((pddl_problem, init_desc, goal_desc, constr_desc), g'))
          else f planner d nl ni nc g') = Some y"
  show "\<forall>p i gd c g'. y = Inr ((p, i, gd, c), g') \<longrightarrow>
     (\<exists>n g0 pwo. rejected_candidates planner d nl ni nc n g = Some g0
        \<and> generate_problem nl ni nc g0 = Inr ((p, pwo, i, gd, c), g')
        \<and> planner d p \<noteq> planner d pwo)"
  proof (intro allI impI)
    fix p i gd c g'
    assume y: "y = Inr ((p, i, gd, c), g')"
    show "\<exists>n g0 pwo. rejected_candidates planner d nl ni nc n g = Some g0
        \<and> generate_problem nl ni nc g0 = Inr ((p, pwo, i, gd, c), g')
        \<and> planner d p \<noteq> planner d pwo"
    proof (cases "generate_problem nl ni nc g")
      case (Inl e)
      with step y show ?thesis by simp
    next
      case (Inr r)
      obtain pp pwo ii gg cc g1 where r: "r = ((pp, pwo, ii, gg, cc), g1)"
        by (cases r) auto
      note gp = Inr [unfolded r]
      show ?thesis
      proof (cases "planner d pp = planner d pwo")
        case False
        with step gp have "y = Inr ((pp, ii, gg, cc), g1)"
          by (simp add: optimal_solutions_are_equal_def)
        with y have e: "pp = p" "ii = i" "gg = gd" "cc = c" "g1 = g'" by simp_all
        have "rejected_candidates planner d nl ni nc 0 g = Some g" by simp
        moreover have "generate_problem nl ni nc g = Inr ((p, pwo, i, gd, c), g')"
          using gp e by simp
        moreover have "planner d p \<noteq> planner d pwo" using False e by simp
        ultimately show ?thesis by blast
      next
        case True
        with step gp have "f planner d nl ni nc g1 = Some y"
          by (simp add: optimal_solutions_are_equal_def)
        from IH [OF this] y obtain n g0 pwo' where
          n: "rejected_candidates planner d nl ni nc n g1 = Some g0"
          and rest: "generate_problem nl ni nc g0 = Inr ((p, pwo', i, gd, c), g')"
            "planner d p \<noteq> planner d pwo'"
          by blast
        have "rejected_candidates planner d nl ni nc (Suc n) g = Some g0"
          using gp True n by simp
        with rest show ?thesis by blast
      qed
    qed
  qed
qed

text \<open>
  C2. Whenever \<open>generate_one_useful_instance\<close> returns an instance, that instance is a
  candidate of \<open>generate_problem\<close> for which the planner, run on the text with constraints
  and on the text without, returned two different plans, and every candidate generated
  before it was discarded because the two plans were equal. A candidate with equal plans
  is dropped and the loop goes on from the random source the candidate left; a candidate
  with different plans is returned at once.
\<close>

theorem useful_instance_plans_differ:
  "(\<forall>p i gd c g'.
      generate_one_useful_instance planner d nl ni nc g = Some (Inr ((p, i, gd, c), g')) \<longrightarrow>
      (\<exists>n g0 pwo. rejected_candidates planner d nl ni nc n g = Some g0
         \<and> generate_problem nl ni nc g0 = Inr ((p, pwo, i, gd, c), g')
         \<and> planner d p \<noteq> planner d pwo))
   \<and> (\<forall>p pwo i gd c g1.
        generate_problem nl ni nc g = Inr ((p, pwo, i, gd, c), g1) \<longrightarrow>
        generate_one_useful_instance planner d nl ni nc g =
          (if planner d p = planner d pwo
           then generate_one_useful_instance planner d nl ni nc g1
           else Some (Inr ((p, i, gd, c), g1))))"
proof (intro conjI allI impI)
  fix p i gd c g'
  assume "generate_one_useful_instance planner d nl ni nc g = Some (Inr ((p, i, gd, c), g'))"
  then show "\<exists>n g0 pwo. rejected_candidates planner d nl ni nc n g = Some g0
         \<and> generate_problem nl ni nc g0 = Inr ((p, pwo, i, gd, c), g')
         \<and> planner d p \<noteq> planner d pwo"
    using loop_sound by blast
next
  fix p pwo i gd c g1
  assume "generate_problem nl ni nc g = Inr ((p, pwo, i, gd, c), g1)"
  then show "generate_one_useful_instance planner d nl ni nc g =
          (if planner d p = planner d pwo
           then generate_one_useful_instance planner d nl ni nc g1
           else Some (Inr ((p, i, gd, c), g1)))"
    by (rule loop_unfold)
qed

lemma first_candidate:
  "generate_problem 1 1 (- 1) [0, 13, 0, 0, 0, 0, 0, 0, 0, 0, 0, 0, 0, 0, 0, 0, 0, 0, 0, 0, 0, 0]
   = Inr ((problem_with_constraints
      \<lparr> p_locations = [mk_location True ''office''],
         p_items = [mk_item {} ''lego-set''],
         p_initial_state =
           [(''(robot-at office)'', ''The robot is at the office.''),
            (''(left-hand-empty) (right-hand-empty)'', ''The robot's both hands are empty.''),
            at_fact (mk_item {} ''lego-set'') (mk_location True ''office'')],
         p_selected = [],
         p_goals = [at_goal (mk_item {} ''lego-set'') (mk_location True ''office''),
                    robot_goal (mk_location True ''office'')] \<rparr>,
     problem_without_constraints
      \<lparr> p_locations = [mk_location True ''office''],
         p_items = [mk_item {} ''lego-set''],
         p_initial_state =
           [(''(robot-at office)'', ''The robot is at the office.''),
            (''(left-hand-empty) (right-hand-empty)'', ''The robot's both hands are empty.''),
            at_fact (mk_item {} ''lego-set'') (mk_location True ''office'')],
         p_selected = [],
         p_goals = [at_goal (mk_item {} ''lego-set'') (mk_location True ''office''),
                    robot_goal (mk_location True ''office'')] \<rparr>,
     init_description
      \<lparr> p_locations = [mk_location True ''office''],
         p_items = [mk_item {} ''lego-set''],
         p_initial_state =
           [(''(robot-at office)'', ''The robot is at the office.''),
            (''(left-hand-empty) (right-hand-empty)'', ''The robot's both hands are empty.''),
            at_fact (mk_item {} ''lego-set'') (mk_location True ''office'')],
         p_selected = [],
         p_goals = [at_goal (mk_item {} ''lego-set'') (mk_location True ''office''),
                    robot_goal (mk_location True ''office'')] \<rparr>,
     goal_description
      \<lparr> p_locations = [mk_location True ''office''],
         p_items = [mk_item {} ''lego-set''],
         p_initial_state =
           [(''(robot-at office)'', ''The robot is at the office.''),
            (''(left-hand-empty) (right-hand-empty)'', ''The robot's both hands are empty.''),
            at_fact (mk_item {} ''lego-set'') (mk_location True ''office'')],
         p_selected = [],
         p_goals = [at_goal (mk_item {} ''lego-set'') (mk_location True ''office''),
                    robot_goal (mk_location True ''office'')] \<rparr>,
     constraints_description
      \<lparr> p_locations = [mk_location True ''office''],
         p_items = [mk_item {} ''lego-set''],
         p_initial_state =
           [(''(robot-at office)'', ''The robot is at the office.''),
            (''(left-hand-empty) (right-hand-empty)'', ''The robot's both hands are empty.''),
            at_fact (mk_item {} ''lego-set'') (mk_location True ''office'')],
         p_selected = [],
         p_goals = [at_goal (mk_item {} ''lego-set'') (mk_location True ''office''),
                    robot_goal (mk_location True ''office'')] \<rparr>),
     [0, 0, 0, 0, 0, 0, 0, 0, 0, 0, 0])"
  by code_simp

lemma second_candidate:
  "generate_problem 1 1 (- 1) [0, 0, 0, 0, 0, 0, 0, 0, 0, 0, 0]
   = Inr ((problem_with_constraints
      \<lparr> p_locations = [mk_location True ''office''],
         p_items = [mk_item {LIVING} ''cat''],
         p_initial_state =
           [(''(robot-at office)'', ''The robot is at the office.''),
            (''(left-hand-empty) (right-hand-empty)'', ''The robot's both hands are empty.''),
            at_fact (mk_item {LIVING} ''cat'') (mk_location True ''office'')],
         p_selected = [dont_go_near_item (mk_item {LIVING} ''cat'')],
         p_goals = [at_goal (mk_item {LIVING} ''cat'') (mk_location True ''office''),
                    robot_goal (mk_location True ''office'')] \<rparr>,
     problem_without_constraints
      \<lparr> p_locations = [mk_location True ''office''],
         p_items = [mk_item {LIVING} ''cat''],
         p_initial_state =
           [(''(robot-at office)'', ''The robot is at the office.''),
            (''(left-hand-empty) (right-hand-empty)'', ''The robot's both hands are empty.''),
            at_fact (mk_item {LIVING} ''cat'') (mk_location True ''office'')],
         p_selected = [dont_go_near_item (mk_item {LIVING} ''cat'')],
         p_goals = [at_goal (mk_item {LIVING} ''cat'') (mk_location True ''office''),
                    robot_goal (mk_location True ''office'')] \<rparr>,
     init_description
      \<lparr> p_locations = [mk_location True ''office''],
         p_items = [mk_item {LIVING} ''cat''],
         p_initial_state =
           [(''(robot-at office)'', ''The robot is at the office.''),
            (''(left-hand-empty) (right-hand-empty)'', ''The robot's both hands are empty.''),
            at_fact (mk_item {LIVING} ''cat'') (mk_location True ''office'')],
         p_selected = [dont_go_near_item (mk_item {LIVING} ''cat'')],
         p_goals = [at_goal (mk_item {LIVING} ''cat'') (mk_location True ''office''),
                    robot_goal (mk_location True ''office'')] \<rparr>,
     goal_description
      \<lparr> p_locations = [mk_location True ''office''],
         p_items = [mk_item {LIVING} ''cat''],
         p_initial_state =
           [(''(robot-at office)'', ''The robot is at the office.''),
            (''(left-hand-empty) (right-hand-empty)'', ''The robot's both hands are empty.''),
            at_fact (mk_item {LIVING} ''cat'') (mk_location True ''office'')],
         p_selected = [dont_go_near_item (mk_item {LIVING} ''cat'')],
         p_goals = [at_goal (mk_item {LIVING} ''cat'') (mk_location True ''office''),
                    robot_goal (mk_location True ''office'')] \<rparr>,
     constraints_description
      \<lparr> p_locations = [mk_location True ''office''],
         p_items = [mk_item {LIVING} ''cat''],
         p_initial_state =
           [(''(robot-at office)'', ''The robot is at the office.''),
            (''(left-hand-empty) (right-hand-empty)'', ''The robot's both hands are empty.''),
            at_fact (mk_item {LIVING} ''cat'') (mk_location True ''office'')],
         p_selected = [dont_go_near_item (mk_item {LIVING} ''cat'')],
         p_goals = [at_goal (mk_item {LIVING} ''cat'') (mk_location True ''office''),
                    robot_goal (mk_location True ''office'')] \<rparr>),
     [])"
  by code_simp

lemma first_candidate_same_text:
  "problem_with_constraints
      \<lparr> p_locations = [mk_location True ''office''],
         p_items = [mk_item {} ''lego-set''],
         p_initial_state =
           [(''(robot-at office)'', ''The robot is at the office.''),
            (''(left-hand-empty) (right-hand-empty)'', ''The robot's both hands are empty.''),
            at_fact (mk_item {} ''lego-set'') (mk_location True ''office'')],
         p_selected = [],
         p_goals = [at_goal (mk_item {} ''lego-set'') (mk_location True ''office''),
                    robot_goal (mk_location True ''office'')] \<rparr>
   = problem_without_constraints
      \<lparr> p_locations = [mk_location True ''office''],
         p_items = [mk_item {} ''lego-set''],
         p_initial_state =
           [(''(robot-at office)'', ''The robot is at the office.''),
            (''(left-hand-empty) (right-hand-empty)'', ''The robot's both hands are empty.''),
            at_fact (mk_item {} ''lego-set'') (mk_location True ''office'')],
         p_selected = [],
         p_goals = [at_goal (mk_item {} ''lego-set'') (mk_location True ''office''),
                    robot_goal (mk_location True ''office'')] \<rparr>"
  by (simp add: problem_with_constraints_def problem_without_constraints_def)

lemma second_candidate_other_text:
  "problem_with_constraints
      \<lparr> p_locations = [mk_location True ''office''],
         p_items = [mk_item {LIVING} ''cat''],
         p_initial_state =
           [(''(robot-at office)'', ''The robot is at the office.''),
            (''(left-hand-empty) (right-hand-empty)'', ''The robot's both hands are empty.''),
            at_fact (mk_item {LIVING} ''cat'') (mk_location True ''office'')],
         p_selected = [dont_go_near_item (mk_item {LIVING} ''cat'')],
         p_goals = [at_goal (mk_item {LIVING} ''cat'') (mk_location True ''office''),
                    robot_goal (mk_location True ''office'')] \<rparr>
   \<noteq> problem_without_constraints
      \<lparr> p_locations = [mk_location True ''office''],
         p_items = [mk_item {LIVING} ''cat''],
         p_initial_state =
           [(''(robot-at office)'', ''The robot is at the office.''),
            (''(left-hand-empty) (right-hand-empty)'', ''The robot's both hands are empty.''),
            at_fact (mk_item {LIVING} ''cat'') (mk_location True ''office'')],
         p_selected = [dont_go_near_item (mk_item {LIVING} ''cat'')],
         p_goals = [at_goal (mk_item {LIVING} ''cat'') (mk_location True ''office''),
                    robot_goal (mk_location True ''office'')] \<rparr>"
  by (simp add: problem_with_constraints_def problem_without_constraints_def
        constraints_block_def)

theorem useful_instance_plans_differ_witness:
  "generate_one_useful_instance (\<lambda>d p. [p]) ''manipulation'' 1 1 (- 1)
     [0, 13, 0, 0, 0, 0, 0, 0, 0, 0, 0, 0, 0, 0, 0, 0, 0, 0, 0, 0, 0, 0]
   = Some (Inr ((problem_with_constraints
      \<lparr> p_locations = [mk_location True ''office''],
         p_items = [mk_item {LIVING} ''cat''],
         p_initial_state =
           [(''(robot-at office)'', ''The robot is at the office.''),
            (''(left-hand-empty) (right-hand-empty)'', ''The robot's both hands are empty.''),
            at_fact (mk_item {LIVING} ''cat'') (mk_location True ''office'')],
         p_selected = [dont_go_near_item (mk_item {LIVING} ''cat'')],
         p_goals = [at_goal (mk_item {LIVING} ''cat'') (mk_location True ''office''),
                    robot_goal (mk_location True ''office'')] \<rparr>,
     init_description
      \<lparr> p_locations = [mk_location True ''office''],
         p_items = [mk_item {LIVING} ''cat''],
         p_initial_state =
           [(''(robot-at office)'', ''The robot is at the office.''),
            (''(left-hand-empty) (right-hand-empty)'', ''The robot's both hands are empty.''),
            at_fact (mk_item {LIVING} ''cat'') (mk_location True ''office'')],
         p_selected = [dont_go_near_item (mk_item {LIVING} ''cat'')],
         p_goals = [at_goal (mk_item {LIVING} ''cat'') (mk_location True ''office''),
                    robot_goal (mk_location True ''office'')] \<rparr>,
     goal_description
      \<lparr> p_locations = [mk_location True ''office''],
         p_items = [mk_item {LIVING} ''cat''],
         p_initial_state =
           [(''(robot-at office)'', ''The robot is at the office.''),
            (''(left-hand-empty) (right-hand-empty)'', ''The robot's both hands are empty.''),
            at_fact (mk_item {LIVING} ''cat'') (mk_location True ''office'')],
         p_selected = [dont_go_near_item (mk_item {LIVING} ''cat'')],
         p_goals = [at_goal (mk_item {LIVING} ''cat'') (mk_location True ''office''),
                    robot_goal (mk_location True ''office'')] \<rparr>,
     constraints_description
      \<lparr> p_locations = [mk_location True ''office''],
         p_items = [mk_item {LIVING} ''cat''],
         p_initial_state =
           [(''(robot-at office)'', ''The robot is at the office.''),
            (''(left-hand-empty) (right-hand-empty)'', ''The robot's both hands are empty.''),
            at_fact (mk_item {LIVING} ''cat'') (mk_location True ''office'')],
         p_selected = [dont_go_near_item (mk_item {LIVING} ''cat'')],
         p_goals = [at_goal (mk_item {LIVING} ''cat'') (mk_location True ''office''),
                    robot_goal (mk_location True ''office'')] \<rparr>),
     []))
   \<and> rejected_candidates (\<lambda>d p. [p]) ''manipulation'' 1 1 (- 1) (Suc 0)
       [0, 13, 0, 0, 0, 0, 0, 0, 0, 0, 0, 0, 0, 0, 0, 0, 0, 0, 0, 0, 0, 0]
     = Some [0, 0, 0, 0, 0, 0, 0, 0, 0, 0, 0]
   \<and> (\<exists>n g0 pwo. rejected_candidates (\<lambda>d p. [p]) ''manipulation'' 1 1 (- 1) n
          [0, 13, 0, 0, 0, 0, 0, 0, 0, 0, 0, 0, 0, 0, 0, 0, 0, 0, 0, 0, 0, 0] = Some g0
        \<and> generate_problem 1 1 (- 1) g0
           = Inr ((problem_with_constraints
      \<lparr> p_locations = [mk_location True ''office''],
         p_items = [mk_item {LIVING} ''cat''],
         p_initial_state =
           [(''(robot-at office)'', ''The robot is at the office.''),
            (''(left-hand-empty) (right-hand-empty)'', ''The robot's both hands are empty.''),
            at_fact (mk_item {LIVING} ''cat'') (mk_location True ''office'')],
         p_selected = [dont_go_near_item (mk_item {LIVING} ''cat'')],
         p_goals = [at_goal (mk_item {LIVING} ''cat'') (mk_location True ''office''),
                    robot_goal (mk_location True ''office'')] \<rparr>, pwo,
     init_description
      \<lparr> p_locations = [mk_location True ''office''],
         p_items = [mk_item {LIVING} ''cat''],
         p_initial_state =
           [(''(robot-at office)'', ''The robot is at the office.''),
            (''(left-hand-empty) (right-hand-empty)'', ''The robot's both hands are empty.''),
            at_fact (mk_item {LIVING} ''cat'') (mk_location True ''office'')],
         p_selected = [dont_go_near_item (mk_item {LIVING} ''cat'')],
         p_goals = [at_goal (mk_item {LIVING} ''cat'') (mk_location True ''office''),
                    robot_goal (mk_location True ''office'')] \<rparr>,
     goal_description
      \<lparr> p_locations = [mk_location True ''office''],
         p_items = [mk_item {LIVING} ''cat''],
         p_initial_state =
           [(''(robot-at office)'', ''The robot is at the office.''),
            (''(left-hand-empty) (right-hand-empty)'', ''The robot's both hands are empty.''),
            at_fact (mk_item {LIVING} ''cat'') (mk_location True ''office'')],
         p_selected = [dont_go_near_item (mk_item {LIVING} ''cat'')],
         p_goals = [at_goal (mk_item {LIVING} ''cat'') (mk_location True ''office''),
                    robot_goal (mk_location True ''office'')] \<rparr>,
     constraints_description
      \<lparr> p_locations = [mk_location True ''office''],
         p_items = [mk_item {LIVING} ''cat''],
         p_initial_state =
           [(''(robot-at office)'', ''The robot is at the office.''),
            (''(left-hand-empty) (right-hand-empty)'', ''The robot's both hands are empty.''),
            at_fact (mk_item {LIVING} ''cat'') (mk_location True ''office'')],
         p_selected = [dont_go_near_item (mk_item {LIVING} ''cat'')],
         p_goals = [at_goal (mk_item {LIVING} ''cat'') (mk_location True ''office''),
                    robot_goal (mk_location True ''office'')] \<rparr>),
     [])
        \<and> [problem_with_constraints
      \<lparr> p_locations = [mk_location True ''office''],
         p_items = [mk_item {LIVING} ''cat''],
         p_initial_state =
           [(''(robot-at office)'', ''The robot is at the office.''),
            (''(left-hand-empty) (right-hand-empty)'', ''The robot's both hands are empty.''),
            at_fact (mk_item {LIVING} ''cat'') (mk_location True ''office'')],
         p_selected = [dont_go_near_item (mk_item {LIVING} ''cat'')],
         p_goals = [at_goal (mk_item {LIVING} ''cat'') (mk_location True ''office''),
                    robot_goal (mk_location True ''office'')] \<rparr>] \<noteq> [pwo])"
proof -
  note T = useful_instance_plans_differ
             [where planner = "\<lambda>d p. [p]" and d = "''manipulation''" and nl = 1 and ni = 1
                and nc = "- 1"]
  have s1: "generate_one_useful_instance (\<lambda>d p. [p]) ''manipulation'' 1 1 (- 1)
              [0, 13, 0, 0, 0, 0, 0, 0, 0, 0, 0, 0, 0, 0, 0, 0, 0, 0, 0, 0, 0, 0]
            = generate_one_useful_instance (\<lambda>d p. [p]) ''manipulation'' 1 1 (- 1)
              [0, 0, 0, 0, 0, 0, 0, 0, 0, 0, 0]"
    using T [where g = "[0, 13, 0, 0, 0, 0, 0, 0, 0, 0, 0, 0, 0, 0, 0, 0, 0, 0, 0, 0, 0, 0]", THEN conjunct2, rule_format, OF first_candidate]
      first_candidate_same_text
    by simp
  have s2: "generate_one_useful_instance (\<lambda>d p. [p]) ''manipulation'' 1 1 (- 1)
              [0, 0, 0, 0, 0, 0, 0, 0, 0, 0, 0]
   = Some (Inr ((problem_with_constraints
      \<lparr> p_locations = [mk_location True ''office''],
         p_items = [mk_item {LIVING} ''cat''],
         p_initial_state =
           [(''(robot-at office)'', ''The robot is at the office.''),
            (''(left-hand-empty) (right-hand-empty)'', ''The robot's both hands are empty.''),
            at_fact (mk_item {LIVING} ''cat'') (mk_location True ''office'')],
         p_selected = [dont_go_near_item (mk_item {LIVING} ''cat'')],
         p_goals = [at_goal (mk_item {LIVING} ''cat'') (mk_location True ''office''),
                    robot_goal (mk_location True ''office'')] \<rparr>,
     init_description
      \<lparr> p_locations = [mk_location True ''office''],
         p_items = [mk_item {LIVING} ''cat''],
         p_initial_state =
           [(''(robot-at office)'', ''The robot is at the office.''),
            (''(left-hand-empty) (right-hand-empty)'', ''The robot's both hands are empty.''),
            at_fact (mk_item {LIVING} ''cat'') (mk_location True ''office'')],
         p_selected = [dont_go_near_item (mk_item {LIVING} ''cat'')],
         p_goals = [at_goal (mk_item {LIVING} ''cat'') (mk_location True ''office''),
                    robot_goal (mk_location True ''office'')] \<rparr>,
     goal_description
      \<lparr> p_locations = [mk_location True ''office''],
         p_items = [mk_item {LIVING} ''cat''],
         p_initial_state =
           [(''(robot-at office)'', ''The robot is at the office.''),
            (''(left-hand-empty) (right-hand-empty)'', ''The robot's both hands are empty.''),
            at_fact (mk_item {LIVING} ''cat'') (mk_location True ''office'')],
         p_selected = [dont_go_near_item (mk_item {LIVING} ''cat'')],
         p_goals = [at_goal (mk_item {LIVING} ''cat'') (mk_location True ''office''),
                    robot_goal (mk_location True ''office'')] \<rparr>,
     constraints_description
      \<lparr> p_locations = [mk_location True ''office''],
         p_items = [mk_item {LIVING} ''cat''],
         p_initial_state =
           [(''(robot-at office)'', ''The robot is at the office.''),
            (''(left-hand-empty) (right-hand-empty)'', ''The robot's both hands are empty.''),
            at_fact (mk_item {LIVING} ''cat'') (mk_location True ''office'')],
         p_selected = [dont_go_near_item (mk_item {LIVING} ''cat'')],
         p_goals = [at_goal (mk_item {LIVING} ''cat'') (mk_location True ''office''),
                    robot_goal (mk_location True ''office'')] \<rparr>),
     []))"
    using T [where g = "[0, 0, 0, 0, 0, 0, 0, 0, 0, 0, 0]", THEN conjunct2, rule_format, OF second_candidate]
      second_candidate_other_text
    by simp
  have r: "rejected_candidates (\<lambda>d p. [p]) ''manipulation'' 1 1 (- 1) (Suc 0)
       [0, 13, 0, 0, 0, 0, 0, 0, 0, 0, 0, 0, 0, 0, 0, 0, 0, 0, 0, 0, 0, 0]
     = Some [0, 0, 0, 0, 0, 0, 0, 0, 0, 0, 0]"
    by (simp add: first_candidate first_candidate_same_text)
  have s12: "generate_one_useful_instance (\<lambda>d p. [p]) ''manipulation'' 1 1 (- 1)
              [0, 13, 0, 0, 0, 0, 0, 0, 0, 0, 0, 0, 0, 0, 0, 0, 0, 0, 0, 0, 0, 0]
   = Some (Inr ((problem_with_constraints
      \<lparr> p_locations = [mk_location True ''office''],
         p_items = [mk_item {LIVING} ''cat''],
         p_initial_state =
           [(''(robot-at office)'', ''The robot is at the office.''),
            (''(left-hand-empty) (right-hand-empty)'', ''The robot's both hands are empty.''),
            at_fact (mk_item {LIVING} ''cat'') (mk_location True ''office'')],
         p_selected = [dont_go_near_item (mk_item {LIVING} ''cat'')],
         p_goals = [at_goal (mk_item {LIVING} ''cat'') (mk_location True ''office''),
                    robot_goal (mk_location True ''office'')] \<rparr>,
     init_description
      \<lparr> p_locations = [mk_location True ''office''],
         p_items = [mk_item {LIVING} ''cat''],
         p_initial_state =
           [(''(robot-at office)'', ''The robot is at the office.''),
            (''(left-hand-empty) (right-hand-empty)'', ''The robot's both hands are empty.''),
            at_fact (mk_item {LIVING} ''cat'') (mk_location True ''office'')],
         p_selected = [dont_go_near_item (mk_item {LIVING} ''cat'')],
         p_goals = [at_goal (mk_item {LIVING} ''cat'') (mk_location True ''office''),
                    robot_goal (mk_location True ''office'')] \<rparr>,
     goal_description
      \<lparr> p_locations = [mk_location True ''office''],
         p_items = [mk_item {LIVING} ''cat''],
         p_initial_state =
           [(''(robot-at office)'', ''The robot is at the office.''),
            (''(left-hand-empty) (right-hand-empty)'', ''The robot's both hands are empty.''),
            at_fact (mk_item {LIVING} ''cat'') (mk_location True ''office'')],
         p_selected = [dont_go_near_item (mk_item {LIVING} ''cat'')],
         p_goals = [at_goal (mk_item {LIVING} ''cat'') (mk_location True ''office''),
                    robot_goal (mk_location True ''office'')] \<rparr>,
     constraints_description
      \<lparr> p_locations = [mk_location True ''office''],
         p_items = [mk_item {LIVING} ''cat''],
         p_initial_state =
           [(''(robot-at office)'', ''The robot is at the office.''),
            (''(left-hand-empty) (right-hand-empty)'', ''The robot's both hands are empty.''),
            at_fact (mk_item {LIVING} ''cat'') (mk_location True ''office'')],
         p_selected = [dont_go_near_item (mk_item {LIVING} ''cat'')],
         p_goals = [at_goal (mk_item {LIVING} ''cat'') (mk_location True ''office''),
                    robot_goal (mk_location True ''office'')] \<rparr>),
     []))"
    using s1 s2 by (rule trans)
  have s3: "(\<exists>n g0 pwo. rejected_candidates (\<lambda>d p. [p]) ''manipulation'' 1 1 (- 1) n
          [0, 13, 0, 0, 0, 0, 0, 0, 0, 0, 0, 0, 0, 0, 0, 0, 0, 0, 0, 0, 0, 0] = Some g0
        \<and> generate_problem 1 1 (- 1) g0
           = Inr ((problem_with_constraints
      \<lparr> p_locations = [mk_location True ''office''],
         p_items = [mk_item {LIVING} ''cat''],
         p_initial_state =
           [(''(robot-at office)'', ''The robot is at the office.''),
            (''(left-hand-empty) (right-hand-empty)'', ''The robot's both hands are empty.''),
            at_fact (mk_item {LIVING} ''cat'') (mk_location True ''office'')],
         p_selected = [dont_go_near_item (mk_item {LIVING} ''cat'')],
         p_goals = [at_goal (mk_item {LIVING} ''cat'') (mk_location True ''office''),
                    robot_goal (mk_location True ''office'')] \<rparr>, pwo,
     init_description
      \<lparr> p_locations = [mk_location True ''office''],
         p_items = [mk_item {LIVING} ''cat''],
         p_initial_state =
           [(''(robot-at office)'', ''The robot is at the office.''),
            (''(left-hand-empty) (right-hand-empty)'', ''The robot's both hands are empty.''),
            at_fact (mk_item {LIVING} ''cat'') (mk_location True ''office'')],
         p_selected = [dont_go_near_item (mk_item {LIVING} ''cat'')],
         p_goals = [at_goal (mk_item {LIVING} ''cat'') (mk_location True ''office''),
                    robot_goal (mk_location True ''office'')] \<rparr>,
     goal_description
      \<lparr> p_locations = [mk_location True ''office''],
         p_items = [mk_item {LIVING} ''cat''],
         p_initial_state =
           [(''(robot-at office)'', ''The robot is at the office.''),
            (''(left-hand-empty) (right-hand-empty)'', ''The robot's both hands are empty.''),
            at_fact (mk_item {LIVING} ''cat'') (mk_location True ''office'')],
         p_selected = [dont_go_near_item (mk_item {LIVING} ''cat'')],
         p_goals = [at_goal (mk_item {LIVING} ''cat'') (mk_location True ''office''),
                    robot_goal (mk_location True ''office'')] \<rparr>,
     constraints_description
      \<lparr> p_locations = [mk_location True ''office''],
         p_items = [mk_item {LIVING} ''cat''],
         p_initial_state =
           [(''(robot-at office)'', ''The robot is at the office.''),
            (''(left-hand-empty) (right-hand-empty)'', ''The robot's both hands are empty.''),
            at_fact (mk_item {LIVING} ''cat'') (mk_location True ''office'')],
         p_selected = [dont_go_near_item (mk_item {LIVING} ''cat'')],
         p_goals = [at_goal (mk_item {LIVING} ''cat'') (mk_location True ''office''),
                    robot_goal (mk_location True ''office'')] \<rparr>),
     [])
        \<and> [problem_with_constraints
      \<lparr> p_locations = [mk_location True ''office''],
         p_items = [mk_item {LIVING} ''cat''],
         p_initial_state =
           [(''(robot-at office)'', ''The robot is at the office.''),
            (''(left-hand-empty) (right-hand-empty)'', ''The robot's both hands are empty.''),
            at_fact (mk_item {LIVING} ''cat'') (mk_location True ''office'')],
         p_selected = [dont_go_near_item (mk_item {LIVING} ''cat'')],
         p_goals = [at_goal (mk_item {LIVING} ''cat'') (mk_location True ''office''),
                    robot_goal (mk_location True ''office'')] \<rparr>] \<noteq> [pwo])"
    by (rule T [where g = "[0, 13, 0, 0, 0, 0, 0, 0, 0, 0, 0, 0, 0, 0, 0, 0, 0, 0, 0, 0, 0, 0]", THEN conjunct1, rule_format, OF s12])
  from s12 r s3 show ?thesis by (intro conjI)
qed

end
